theory Spec2Isabelle
  imports Complex_Main "HOL-Library.Multiset"
begin

section \<open>Data model of the tracking front end\<close>

text \<open>
  The embedding follows \<^verbatim>\<open>src/orb_slam/src/threads/Tracking.cc\<close> and
  \<^verbatim>\<open>src/orb_slam/src/main.cc\<close>. Conventions:
  \<^item> a \<^verbatim>\<open>float\<close> or \<^verbatim>\<open>double\<close> is a \<open>cfloat\<close>: a real number, or one of the values
    \<open>+inf\<close>, \<open>-inf\<close> and \<open>NaN\<close>, with the arithmetic and comparisons of
    IEEE 754. A finite float is read as the real it denotes: rounding and overflow are
    not modelled, and the two zeros are one, which divides like \<open>+0\<close>.
  \<^item> a \<^verbatim>\<open>cv::Mat\<close> of floats is a row-major list of rows; the empty list is the empty
    matrix (\<^verbatim>\<open>cv::Mat()\<close>, \<^verbatim>\<open>.empty()\<close>).
  \<^item> a \<^verbatim>\<open>KeyFrame*\<close> or \<^verbatim>\<open>MapPoint*\<close> is an address (a natural number) into an
    explicit store; \<^verbatim>\<open>NULL\<close> is \<open>None\<close>.
  \<^item> calls into the other threads, the publishers and the logger are recorded, in order,
    in the field \<open>events\<close>.
  \<^item> the matcher, the optimizer, the two-view initializer, the relocalizer and the feature
    extractor are outside these two files; their answers during one call are the fields
    of the record \<open>Ext\<close>, and every theorem holds for all of them.
  \<^item> frame and keyframe counters (declared in headers that are not part of the two files)
    are naturals; no wrap-around is modelled.
  \<^item> the class \<^verbatim>\<open>Map\<close> is the record \<open>MapT\<close>; a \<^verbatim>\<open>Map*\<close> held by the database is the
    Map at that position of \<open>db_maps\<close>.
\<close>

subsection \<open>Floats\<close>

text \<open>
  The values of a float and their arithmetic: a sum or product with a \<open>NaN\<close> is \<open>NaN\<close>,
  as are \<open>inf - inf\<close>, \<open>0 * inf\<close>, \<open>0 / 0\<close> and \<open>inf / inf\<close>; a non-zero number
  divided by zero is the infinity of its sign; every comparison with a \<open>NaN\<close> is false.
\<close>

datatype cfloat = Fin real | PInf | NInf | NaN

fun is_finite :: "cfloat \<Rightarrow> bool" where
  "is_finite (Fin a) = True"
| "is_finite PInf = False"
| "is_finite NInf = False"
| "is_finite NaN = False"

text \<open>The product of an infinity of the given sign and the finite number \<open>b\<close>.\<close>

fun times_inf :: "bool \<Rightarrow> real \<Rightarrow> cfloat" where
  "times_inf positive b =
     (if b = 0 then NaN else if (0 < b) = positive then PInf else NInf)"

instantiation cfloat :: "{zero, one, uminus, plus, times, divide, ord}"
begin

definition zero_cfloat :: cfloat where
  "zero_cfloat = Fin 0"

definition one_cfloat :: cfloat where
  "one_cfloat = Fin 1"

fun uminus_cfloat :: "cfloat \<Rightarrow> cfloat" where
  "uminus_cfloat (Fin a) = Fin (- a)"
| "uminus_cfloat PInf = NInf"
| "uminus_cfloat NInf = PInf"
| "uminus_cfloat NaN = NaN"

fun plus_cfloat :: "cfloat \<Rightarrow> cfloat \<Rightarrow> cfloat" where
  "plus_cfloat (Fin a) (Fin b) = Fin (a + b)"
| "plus_cfloat (Fin a) PInf = PInf"
| "plus_cfloat (Fin a) NInf = NInf"
| "plus_cfloat PInf (Fin b) = PInf"
| "plus_cfloat PInf PInf = PInf"
| "plus_cfloat NInf (Fin b) = NInf"
| "plus_cfloat NInf NInf = NInf"
| "plus_cfloat PInf NInf = NaN"
| "plus_cfloat NInf PInf = NaN"
| "plus_cfloat NaN y = NaN"
| "plus_cfloat x NaN = NaN"

fun times_cfloat :: "cfloat \<Rightarrow> cfloat \<Rightarrow> cfloat" where
  "times_cfloat (Fin a) (Fin b) = Fin (a * b)"
| "times_cfloat (Fin a) PInf = times_inf True a"
| "times_cfloat (Fin a) NInf = times_inf False a"
| "times_cfloat PInf (Fin b) = times_inf True b"
| "times_cfloat NInf (Fin b) = times_inf False b"
| "times_cfloat PInf PInf = PInf"
| "times_cfloat NInf NInf = PInf"
| "times_cfloat PInf NInf = NInf"
| "times_cfloat NInf PInf = NInf"
| "times_cfloat NaN y = NaN"
| "times_cfloat x NaN = NaN"

fun divide_cfloat :: "cfloat \<Rightarrow> cfloat \<Rightarrow> cfloat" where
  "divide_cfloat (Fin a) (Fin b) = (if b = 0 then times_inf True a else Fin (a / b))"
| "divide_cfloat (Fin a) PInf = Fin 0"
| "divide_cfloat (Fin a) NInf = Fin 0"
| "divide_cfloat PInf (Fin b) = (if 0 \<le> b then PInf else NInf)"
| "divide_cfloat NInf (Fin b) = (if 0 \<le> b then NInf else PInf)"
| "divide_cfloat PInf PInf = NaN"
| "divide_cfloat NInf NInf = NaN"
| "divide_cfloat PInf NInf = NaN"
| "divide_cfloat NInf PInf = NaN"
| "divide_cfloat NaN y = NaN"
| "divide_cfloat x NaN = NaN"

fun less_cfloat :: "cfloat \<Rightarrow> cfloat \<Rightarrow> bool" where
  "less_cfloat (Fin a) (Fin b) = (a < b)"
| "less_cfloat (Fin a) PInf = True"
| "less_cfloat NInf (Fin b) = True"
| "less_cfloat NInf PInf = True"
| "less_cfloat x y = False"

fun less_eq_cfloat :: "cfloat \<Rightarrow> cfloat \<Rightarrow> bool" where
  "less_eq_cfloat (Fin a) (Fin b) = (a \<le> b)"
| "less_eq_cfloat (Fin a) PInf = True"
| "less_eq_cfloat NInf (Fin b) = True"
| "less_eq_cfloat NInf PInf = True"
| "less_eq_cfloat PInf PInf = True"
| "less_eq_cfloat NInf NInf = True"
| "less_eq_cfloat x y = False"

instance ..

end

instantiation cfloat :: inverse
begin

definition inverse_cfloat :: "cfloat \<Rightarrow> cfloat" where
  "inverse_cfloat x = divide (Fin 1) x"

instance ..

end

instance cfloat :: monoid_add
proof
  fix a b c :: cfloat
  show "a + b + c = a + (b + c)"
    by (cases a; cases b; cases c; simp)
  show "0 + a = a" by (cases a; simp add: zero_cfloat_def)
  show "a + 0 = a" by (cases a; simp add: zero_cfloat_def)
qed

instance cfloat :: numeral ..

subsection \<open>Records\<close>

datatype eTrackingState = NO_IMAGES_YET | NOT_INITIALIZED | INITIALIZING | WORKING

datatype fault = NullPointer | AssertionFailed

datatype thread = LocalMapper | LoopCloser | MapMerger | Relocalizer

type_synonym Mat = "cfloat list list"

type_synonym KeyPoint = "cfloat \<times> cfloat"

record Frame =
  mnId :: nat
  mTimeStamp :: cfloat
  mvKeys :: "KeyPoint list"
  mvKeysUn :: "KeyPoint list"
  mvScaleFactors :: "cfloat list"
  mTcw :: Mat
  mvpMapPoints :: "nat option list"
  mvbOutlier :: "bool list"

record KeyFrame =
  kf_mnId :: nat
  kf_mnFrameId :: nat
  kf_mTimeStamp :: cfloat
  kf_Tcw :: Mat
  kf_mvpMapPoints :: "nat option list"
  kf_mbBad :: bool

record MapPoint =
  mp_mWorldPos :: "cfloat list"
  mp_mpRefKF :: nat
  mp_mObservations :: "(nat \<times> nat) list"
  mp_mbBad :: bool

record MapT =
  mspKeyFrames :: "nat list"
  mspMapPoints :: "nat list"
  mvpReferenceMapPoints :: "nat list"
  mbErased :: bool

record MapDatabase =
  db_maps :: "MapT list"
  db_current :: "nat option"

datatype extractor = mpORBextractor | mpIniORBextractor

record ImageMsg =
  msg_convertible :: bool
  msg_channels :: nat
  msg_stamp :: cfloat

datatype event =
    ROS_ERROR string
  | ROS_INFO string
  | RequestReset thread
  | RequestStop thread
  | Release thread
  | InterruptBA
  | InsertKeyFrame nat
  | AddFrame Frame
  | SetCurrentCameraPose Mat
  | FpsUpdate
  | SendTransform Mat
  | FramePublisherUpdate

record Tracking =
  mState :: eTrackingState
  mLastProcessedState :: eTrackingState
  mCurrentFrame :: Frame
  mLastFrame :: Frame
  mInitialFrame :: Frame
  mpInitializer :: "Frame option"
  mvbPrevMatched :: "KeyPoint list"
  mvIniMatches :: "int list"
  mvIniP3D :: "cfloat list list"
  mbMotionModel :: bool
  mbRGB :: bool
  mVelocity :: Mat
  mMinFrames :: nat
  mMaxFrames :: nat
  mnLastKeyFrameId :: nat
  mnLastRelocFrameId :: nat
  mnMatchesInliers :: int
  mpLastKeyFrame :: "nat option"
  mpReferenceKF :: "nat option"
  mvpLocalKeyFrames :: "nat list"
  mvpLocalMapPoints :: "nat list"
  mbForceRelocalisation :: bool
  mbForceRelocalisationInline :: bool
  mbReseting :: bool
  localMap :: "MapT option"
  mapDB :: MapDatabase
  heapKF :: "nat \<Rightarrow> KeyFrame option"
  heapMP :: "nat \<Rightarrow> MapPoint option"
  nNextKF :: nat
  nNextMP :: nat
  events :: "event list"

text \<open>
  The answers of the external collaborators during one call of \<open>GrabImage\<close>. Each
  field is read at call sites that run at most once per call with the same arguments, so
  a function of the arguments is fully general. \<open>ROS_ASSERT_ENABLED\<close> says whether the
  build compiles assertions in. \<open>ba_pose\<close> and \<open>ba_pos\<close> are the poses and positions the
  global bundle adjustment computes, by address.

  Modelled from the spec: the Relocalization thread is outside the two files. When
  \<open>relocalizeIfSuccessfull\<close> succeeds it has committed the relocalized frame to the
  tracker through \<open>SetRelocalisationFrame\<close> and may have switched the current Map of
  the database; its answer is whether it succeeded, that frame and the database.
\<close>

record Ext =
  newFrame :: "extractor \<Rightarrow> ImageMsg \<Rightarrow> Frame"
  isAcceptingFrames :: bool
  ROS_ASSERT_ENABLED :: bool
  relocalizeIfSuccessfull :: "Tracking \<Rightarrow> bool \<times> Frame \<times> MapDatabase"
  SearchForInitialization ::
    "Frame \<Rightarrow> Frame \<Rightarrow> KeyPoint list \<Rightarrow> int list \<Rightarrow> int \<Rightarrow> int \<times> KeyPoint list \<times> int list"
  Initializer_Initialize ::
    "Frame option \<Rightarrow> Frame \<Rightarrow> int list \<Rightarrow> bool \<times> Mat \<times> Mat \<times> cfloat list list \<times> bool list"
  ba_pose :: "nat \<Rightarrow> Mat"
  ba_pos :: "nat \<Rightarrow> cfloat list"
  WindowSearch :: "Frame \<Rightarrow> Frame \<Rightarrow> int \<Rightarrow> int \<Rightarrow> int \<times> nat option list"
  SearchByProjection ::
    "Frame \<Rightarrow> Frame \<Rightarrow> int \<Rightarrow> nat option list \<Rightarrow> int \<times> nat option list"
  SearchByProjectionLast :: "Frame \<Rightarrow> Frame \<Rightarrow> int \<Rightarrow> int \<times> Frame"
  PoseOptimization :: "Frame \<Rightarrow> int \<times> Frame"
  UpdateLocal :: "Tracking \<Rightarrow> Frame \<times> nat list \<times> nat list \<times> nat option"
  isStopped :: bool
  stopRequested :: bool
  AcceptKeyFrames :: bool
  TrackedMapPoints :: "nat \<Rightarrow> int"
  ComputeSceneMedianDepth :: "nat \<Rightarrow> int \<Rightarrow> cfloat"
  DetectRelocalisationCandidates :: "MapT \<Rightarrow> Frame \<Rightarrow> nat list"
  GetBestCovisibilityKeyFrames :: "nat \<Rightarrow> nat \<Rightarrow> nat list"
  PnPSearch :: "nat list \<Rightarrow> Frame \<Rightarrow> bool \<times> Frame"


section \<open>Matrices\<close>

definition eye :: "nat \<Rightarrow> Mat" where
  "eye n = map (\<lambda>i. map (\<lambda>j. if i = j then 1 else 0) [0..<n]) [0..<n]"

definition mat_t :: "Mat \<Rightarrow> Mat" where
  "mat_t A = (case A of [] \<Rightarrow> [] | r # _ \<Rightarrow> map (\<lambda>j. map (\<lambda>row. row ! j) A) [0..<length r])"

definition mat_mul :: "Mat \<Rightarrow> Mat \<Rightarrow> Mat" where
  "mat_mul A B = map (\<lambda>r. map (\<lambda>c. sum_list (map2 (*) r c)) (mat_t B)) A"

definition mat_neg :: "Mat \<Rightarrow> Mat" where
  "mat_neg A = map (map uminus) A"

text \<open>\<^verbatim>\<open>T.rowRange(0,3).colRange(0,3)\<close> and \<^verbatim>\<open>T.rowRange(0,3).col(3)\<close>.\<close>

definition rot_block :: "Mat \<Rightarrow> Mat" where
  "rot_block T = map (take 3) (take 3 T)"

definition trans_col :: "Mat \<Rightarrow> Mat" where
  "trans_col T = map (\<lambda>r. [r ! 3]) (take 3 T)"

text \<open>
  \<^verbatim>\<open>R.copyTo(T.rowRange(0,3).colRange(0,3)); t.copyTo(T.rowRange(0,3).col(3))\<close> on a
  4x4 matrix \<open>T\<close>, for a 3x3 \<open>R\<close> and a 3x1 \<open>t\<close>.
\<close>

definition copy_Rt :: "Mat \<Rightarrow> Mat \<Rightarrow> Mat \<Rightarrow> Mat" where
  "copy_Rt R t T =
     map (\<lambda>i. take 3 (R ! i) @ take 1 (t ! i) @ drop 4 (T ! i)) [0..<3] @ drop 3 T"

text \<open>\<^verbatim>\<open>T.col(3).rowRange(0,3) = T.col(3).rowRange(0,3)*s\<close>.\<close>

definition scale_translation :: "Mat \<Rightarrow> cfloat \<Rightarrow> Mat" where
  "scale_translation T s = map (\<lambda>r. r[3 := r ! 3 * s]) (take 3 T) @ drop 3 T"

text \<open>C++ integer division truncates towards zero.\<close>

definition cdiv :: "int \<Rightarrow> int \<Rightarrow> int" where
  "cdiv a b = sgn a * sgn b * (\<bar>a\<bar> div \<bar>b\<bar>)"

section \<open>MapDatabase and Map\<close>

text \<open>
  Modelled from the spec: \<^verbatim>\<open>MapDatabase\<close> and \<^verbatim>\<open>Map\<close> are declared in headers that are
  not among the two source files. The database is the collection of Maps with one of
  them designated current; \<open>getNewMap\<close> creates a new empty Map; \<open>addMap\<close> stores a
  Map and designates it current (the Map Tracking is extending); \<open>KeyFramesInMap\<close> is
  the number of KeyFrames the Map owns; \<open>setErased\<close> sets the Map's erased flag.
\<close>

definition getCurrent :: "MapDatabase \<Rightarrow> MapT option" where
  "getCurrent db =
     (case db_current db of None \<Rightarrow> None
      | Some i \<Rightarrow> if i < length (db_maps db) then Some (db_maps db ! i) else None)"

definition getNewMap :: MapT where
  "getNewMap = \<lparr>mspKeyFrames = [], mspMapPoints = [], mvpReferenceMapPoints = [], mbErased = False\<rparr>"

definition addMap :: "MapDatabase \<Rightarrow> MapT \<Rightarrow> MapDatabase" where
  "addMap db m = \<lparr>db_maps = db_maps db @ [m], db_current = Some (length (db_maps db))\<rparr>"

definition KeyFramesInMap :: "MapT \<Rightarrow> nat" where
  "KeyFramesInMap m = length (mspKeyFrames m)"

definition updCurrent :: "(MapT \<Rightarrow> MapT) \<Rightarrow> MapDatabase \<Rightarrow> MapDatabase" where
  "updCurrent f db =
     (case db_current db of None \<Rightarrow> db
      | Some i \<Rightarrow> db\<lparr>db_maps := (db_maps db)[i := f (db_maps db ! i)]\<rparr>)"

definition setErased :: "bool \<Rightarrow> MapT \<Rightarrow> MapT" where
  "setErased b m = m\<lparr>mbErased := b\<rparr>"

definition emit :: "event list \<Rightarrow> Tracking \<Rightarrow> Tracking" where
  "emit es t = t\<lparr>events := events t @ es\<rparr>"

section \<open>Tracking: flags and reset\<close>

definition ForceRelocalisation :: "Tracking \<Rightarrow> Tracking" where
  "ForceRelocalisation t =
     t\<lparr>mbForceRelocalisation := True, mnLastRelocFrameId := mnId (mCurrentFrame t)\<rparr>"

definition ForceInlineRelocalisation :: "Tracking \<Rightarrow> Tracking" where
  "ForceInlineRelocalisation t =
     t\<lparr>mbForceRelocalisationInline := True, mnLastRelocFrameId := mnId (mCurrentFrame t)\<rparr>"

definition RelocalisationRequested :: "Tracking \<Rightarrow> bool" where
  "RelocalisationRequested t = mbForceRelocalisation t"

definition RelocalisationInlineRequested :: "Tracking \<Rightarrow> bool" where
  "RelocalisationInlineRequested t = mbForceRelocalisationInline t"

definition ResetRelocalisationRequested :: "Tracking \<Rightarrow> Tracking" where
  "ResetRelocalisationRequested t =
     t\<lparr>mbForceRelocalisation := False, mbForceRelocalisationInline := False\<rparr>"

definition publishersRequest :: "bool \<Rightarrow> Tracking \<Rightarrow> Tracking" where
  "publishersRequest b t = t\<lparr>mbReseting := b\<rparr>"

text \<open>
  \<open>Reset\<close>: with a pending \<open>localMap\<close> that Map is deleted; otherwise the current Map is
  marked erased through the pointer \<open>getCurrent\<close> returns, which the code does not test.
\<close>

definition Reset :: "Tracking \<Rightarrow> fault + Tracking" where
  "Reset t =
     (if localMap t \<noteq> None then
        Inr ((emit [Release Relocalizer] (t\<lparr>localMap := None\<rparr>))\<lparr>mState := NOT_INITIALIZED\<rparr>)
      else
        (case getCurrent (mapDB t) of
           None \<Rightarrow> Inl NullPointer
         | Some map_to_delete \<Rightarrow>
             Inr ((emit [RequestReset LocalMapper, RequestReset LoopCloser, RequestReset MapMerger,
                         RequestStop LocalMapper, RequestStop LoopCloser, RequestStop MapMerger,
                         Release Relocalizer]
                     (t\<lparr>mapDB := updCurrent (setErased True) (mapDB t)\<rparr>))
                   \<lparr>mState := NOT_INITIALIZED\<rparr>)))"

section \<open>Tracking: initialization gate\<close>

definition FirstInitialization :: "Tracking \<Rightarrow> Tracking" where
  "FirstInitialization t =
     (if length (mvKeys (mCurrentFrame t)) > 100 then
        t\<lparr>mInitialFrame := mCurrentFrame t,
          mvbPrevMatched := mvKeysUn (mCurrentFrame t),
          mpInitializer := Some (mCurrentFrame t),
          mState := INITIALIZING\<rparr>
      else t)"


text \<open>Sequencing of steps that may dereference a null pointer.\<close>

definition bindF :: "fault + 'a \<Rightarrow> ('a \<Rightarrow> fault + 'b) \<Rightarrow> fault + 'b" where
  "bindF r f = (case r of Inl x \<Rightarrow> Inl x | Inr v \<Rightarrow> f v)"

text \<open>
  Modelled from the spec: the constructors of \<^verbatim>\<open>KeyFrame\<close> and \<^verbatim>\<open>MapPoint\<close> and their
  setters are not among the two source files. A KeyFrame is a promoted Frame: it keeps
  the Frame's id, timestamp, pose and landmark associations, is not bad, and gets a
  stable global id, which is also its address in the store.
\<close>

definition new_KeyFrame :: "nat \<Rightarrow> Frame \<Rightarrow> KeyFrame" where
  "new_KeyFrame a F =
     \<lparr>kf_mnId = a, kf_mnFrameId = mnId F, kf_mTimeStamp = mTimeStamp F, kf_Tcw = mTcw F,
      kf_mvpMapPoints = mvpMapPoints F, kf_mbBad = False\<rparr>"

definition new_MapPoint :: "cfloat list \<Rightarrow> nat \<Rightarrow> MapPoint" where
  "new_MapPoint pos refKF =
     \<lparr>mp_mWorldPos = pos, mp_mpRefKF = refKF, mp_mObservations = [], mp_mbBad = False\<rparr>"

definition updKF :: "nat \<Rightarrow> (KeyFrame \<Rightarrow> KeyFrame) \<Rightarrow> Tracking \<Rightarrow> Tracking" where
  "updKF a f t = t\<lparr>heapKF := (\<lambda>x. if x = a then map_option f (heapKF t x) else heapKF t x)\<rparr>"

definition updMP :: "nat \<Rightarrow> (MapPoint \<Rightarrow> MapPoint) \<Rightarrow> Tracking \<Rightarrow> Tracking" where
  "updMP a f t = t\<lparr>heapMP := (\<lambda>x. if x = a then map_option f (heapMP t x) else heapMP t x)\<rparr>"

definition updLocalMap :: "(MapT \<Rightarrow> MapT) \<Rightarrow> Tracking \<Rightarrow> Tracking" where
  "updLocalMap f t = t\<lparr>localMap := map_option f (localMap t)\<rparr>"

definition GetPose :: "Tracking \<Rightarrow> nat \<Rightarrow> Mat" where
  "GetPose t a = (case heapKF t a of None \<Rightarrow> [] | Some k \<Rightarrow> kf_Tcw k)"

definition GetMapPointMatches :: "Tracking \<Rightarrow> nat \<Rightarrow> nat option list" where
  "GetMapPointMatches t a = (case heapKF t a of None \<Rightarrow> [] | Some k \<Rightarrow> kf_mvpMapPoints k)"

definition GetWorldPos :: "Tracking \<Rightarrow> nat \<Rightarrow> cfloat list" where
  "GetWorldPos t a = (case heapMP t a of None \<Rightarrow> [] | Some p \<Rightarrow> mp_mWorldPos p)"

section \<open>Tracking: building the initial Map\<close>

text \<open>One round of the loop that creates a MapPoint for the match at index \<open>i\<close>.\<close>

definition addIniPoint :: "nat \<Rightarrow> nat \<Rightarrow> nat \<Rightarrow> Tracking \<Rightarrow> Tracking" where
  "addIniPoint pKFini pKFcur i t =
     (if mvIniMatches t ! i < 0 then t
      else
        let j = nat (mvIniMatches t ! i);
            pMP = nNextMP t;
            t1 = t\<lparr>heapMP := (heapMP t)(pMP \<mapsto> new_MapPoint (mvIniP3D t ! i) pKFcur),
                   nNextMP := Suc pMP\<rparr>;
            t2 = updKF pKFini (\<lambda>k. k\<lparr>kf_mvpMapPoints := (kf_mvpMapPoints k)[i := Some pMP]\<rparr>) t1;
            t3 = updKF pKFcur (\<lambda>k. k\<lparr>kf_mvpMapPoints := (kf_mvpMapPoints k)[j := Some pMP]\<rparr>) t2;
            t4 = updMP pMP (\<lambda>p. p\<lparr>mp_mObservations :=
                                  mp_mObservations p @ [(pKFini, i), (pKFcur, j)]\<rparr>) t3;
            t5 = t4\<lparr>mCurrentFrame := (mCurrentFrame t4)
                      \<lparr>mvpMapPoints := (mvpMapPoints (mCurrentFrame t4))[j := Some pMP]\<rparr>\<rparr>
        in updLocalMap (\<lambda>m. m\<lparr>mspMapPoints := mspMapPoints m @ [pMP]\<rparr>) t5)"

text \<open>
  \<^verbatim>\<open>Optimizer::GlobalBundleAdjustemnt(localMap,20)\<close>: the optimizer's result is a new
  pose for each KeyFrame and a new position for each MapPoint of the Map.
\<close>

definition GlobalBundleAdjustemnt :: "Ext \<Rightarrow> Tracking \<Rightarrow> Tracking" where
  "GlobalBundleAdjustemnt e t =
     (case localMap t of None \<Rightarrow> t
      | Some m \<Rightarrow>
          t\<lparr>heapKF := (\<lambda>a. if a \<in> set (mspKeyFrames m)
                             then map_option (\<lambda>k. k\<lparr>kf_Tcw := ba_pose e a\<rparr>) (heapKF t a)
                             else heapKF t a),
            heapMP := (\<lambda>a. if a \<in> set (mspMapPoints m)
                             then map_option (\<lambda>p. p\<lparr>mp_mWorldPos := ba_pos e a\<rparr>) (heapMP t a)
                             else heapMP t a)\<rparr>)"

text \<open>The loop \<^verbatim>\<open>pMP->SetWorldPos(pMP->GetWorldPos()*invMedianDepth)\<close> over the matches.\<close>

definition scalePoint :: "cfloat \<Rightarrow> nat option \<Rightarrow> Tracking \<Rightarrow> Tracking" where
  "scalePoint s x t =
     (case x of None \<Rightarrow> t
      | Some pMP \<Rightarrow> updMP pMP (\<lambda>p. p\<lparr>mp_mWorldPos := map (\<lambda>c. c * s) (GetWorldPos t pMP)\<rparr>) t)"

definition scalePoints :: "cfloat \<Rightarrow> nat option list \<Rightarrow> Tracking \<Rightarrow> Tracking" where
  "scalePoints s vpAllMapPoints t = fold (scalePoint s) vpAllMapPoints t"

text \<open>
  \<open>CreateInitialMap\<close>, lines 425-549. The median scene depth of the initial KeyFrame and
  the number of MapPoints the current KeyFrame tracks come from \<^verbatim>\<open>KeyFrame\<close> methods
  outside the two files: they are the parameters \<open>ComputeSceneMedianDepth\<close> and
  \<open>TrackedMapPoints\<close>. Bag-of-words vectors, descriptors, normals and the covisibility
  graph are not modelled. The quotient \<^verbatim>\<open>1.0f/medianDepth\<close> is the quotient of floats: at
  \<open>medianDepth = 0\<close>, which passes the test of line 491, it is \<open>+inf\<close>.
\<close>

definition CreateInitialMap_build :: "Mat \<Rightarrow> Mat \<Rightarrow> Tracking \<Rightarrow> Tracking" where
  "CreateInitialMap_build Rcw tcw t =
     (let t1 = t\<lparr>localMap := Some getNewMap\<rparr>;
          t2 = t1\<lparr>mInitialFrame := (mInitialFrame t1)\<lparr>mTcw := eye 4\<rparr>,
                  mCurrentFrame := (mCurrentFrame t1)\<lparr>mTcw := copy_Rt Rcw tcw (eye 4)\<rparr>\<rparr>;
          pKFini = nNextKF t2;
          pKFcur = Suc pKFini;
          t3 = t2\<lparr>heapKF := (heapKF t2)(pKFini \<mapsto> new_KeyFrame pKFini (mInitialFrame t2),
                                            pKFcur \<mapsto> new_KeyFrame pKFcur (mCurrentFrame t2)),
                  nNextKF := Suc pKFcur\<rparr>;
          t4 = updLocalMap (\<lambda>m. m\<lparr>mspKeyFrames := mspKeyFrames m @ [pKFini, pKFcur]\<rparr>) t3;
          t5 = fold (addIniPoint pKFini pKFcur) [0..<length (mvIniMatches t4)] t4
      in emit [ROS_INFO ''ORB-SLAM - New Map created with %d points''] t5)"

definition CreateInitialMap_commit :: "Ext \<Rightarrow> cfloat \<Rightarrow> nat \<Rightarrow> nat \<Rightarrow> Tracking \<Rightarrow> Tracking" where
  "CreateInitialMap_commit e invMedianDepth pKFini pKFcur t =
     (let t1 = ResetRelocalisationRequested t;
          Tc2w = scale_translation (GetPose t1 pKFcur) invMedianDepth;
          t2 = updKF pKFcur (\<lambda>k. k\<lparr>kf_Tcw := Tc2w\<rparr>) t1;
          t3 = scalePoints invMedianDepth (GetMapPointMatches t2 pKFini) t2;
          t4 = t3\<lparr>mCurrentFrame := (mCurrentFrame t3)\<lparr>mTcw := GetPose t3 pKFcur\<rparr>,
                  mnLastKeyFrameId := mnId (mCurrentFrame t3),
                  mpLastKeyFrame := Some pKFcur,
                  mvpLocalKeyFrames := mvpLocalKeyFrames t3 @ [pKFcur, pKFini],
                  mvpLocalMapPoints := (case localMap t3 of None \<Rightarrow> [] | Some m \<Rightarrow> mspMapPoints m),
                  mpReferenceKF := Some pKFcur\<rparr>;
          t5 = updLocalMap (\<lambda>m. m\<lparr>mvpReferenceMapPoints := mvpLocalMapPoints t4\<rparr>) t4;
          t6 = emit [SetCurrentCameraPose (GetPose t5 pKFcur)] t5;
          t7 = t6\<lparr>mapDB := (case localMap t6 of None \<Rightarrow> mapDB t6 | Some m \<Rightarrow> addMap (mapDB t6) m),
                  localMap := None,
                  mState := WORKING\<rparr>
      in emit [Release LocalMapper, Release LoopCloser, Release MapMerger,
               RequestStop Relocalizer, InsertKeyFrame pKFini, InsertKeyFrame pKFcur] t7)"

definition CreateInitialMap :: "Ext \<Rightarrow> Mat \<Rightarrow> Mat \<Rightarrow> Tracking \<Rightarrow> fault + Tracking" where
  "CreateInitialMap e Rcw tcw t =
     (let pKFini = nNextKF t;
          pKFcur = Suc pKFini;
          t1 = GlobalBundleAdjustemnt e (CreateInitialMap_build Rcw tcw t);
          medianDepth = ComputeSceneMedianDepth e pKFini 2;
          invMedianDepth = 1 / medianDepth
      in if medianDepth < 0 \<or> TrackedMapPoints e pKFcur < 100 then
           Reset (emit [ROS_INFO ''ORB-SLAM - Wrong initialization, reseting...''] t1)
         else Inr (CreateInitialMap_commit e invMedianDepth pKFini pKFcur t1))"


text \<open>\<open>Initialize\<close>, lines 384-423.\<close>

definition untriangulated :: "bool list \<Rightarrow> int list \<times> int \<Rightarrow> int list \<times> int" where
  "untriangulated vbTriangulated st =
     fold (\<lambda>i (m, n). if m ! i \<ge> 0 \<and> \<not> vbTriangulated ! i then (m[i := - 1], n - 1) else (m, n))
       [0..<length (fst st)] st"

definition Initialize :: "Ext \<Rightarrow> Tracking \<Rightarrow> fault + Tracking" where
  "Initialize e t =
     (if length (mvKeys (mCurrentFrame t)) \<le> 100 then
        Inr (t\<lparr>mvIniMatches := map (\<lambda>_. - 1) (mvIniMatches t), mState := NOT_INITIALIZED\<rparr>)
      else
        let (nmatches, prev, ini) =
              SearchForInitialization e (mInitialFrame t) (mCurrentFrame t)
                (mvbPrevMatched t) (mvIniMatches t) 100;
            t1 = t\<lparr>mvbPrevMatched := prev, mvIniMatches := ini\<rparr>
        in if nmatches < 100 then Inr (t1\<lparr>mState := NOT_INITIALIZED\<rparr>)
           else
             let (ok, Rcw, tcw, p3d, vbTriangulated) =
                   Initializer_Initialize e (mpInitializer t1) (mCurrentFrame t1) (mvIniMatches t1);
                 t2 = t1\<lparr>mvIniP3D := p3d\<rparr>
             in if ok then
                  CreateInitialMap e Rcw tcw
                    (t2\<lparr>mvIniMatches := fst (untriangulated vbTriangulated (mvIniMatches t2, nmatches))\<rparr>)
                else Inr t2)"

section \<open>Tracking: pose from the previous frame\<close>

definition discard_outliers :: "Frame \<times> int \<Rightarrow> Frame \<times> int" where
  "discard_outliers st =
     fold (\<lambda>i (F, n). if mvbOutlier F ! i
                       then (F\<lparr>mvpMapPoints := (mvpMapPoints F)[i := None],
                               mvbOutlier := (mvbOutlier F)[i := False]\<rparr>, n - 1)
                       else (F, n))
       [0..<length (mvbOutlier (fst st))] st"

definition discard_matched_outliers :: "Frame \<times> int \<Rightarrow> Frame \<times> int" where
  "discard_matched_outliers st =
     fold (\<lambda>i (F, n). if mvpMapPoints F ! i \<noteq> None \<and> mvbOutlier F ! i
                       then (F\<lparr>mvpMapPoints := (mvpMapPoints F)[i := None],
                               mvbOutlier := (mvbOutlier F)[i := False]\<rparr>, n - 1)
                       else (F, n))
       [0..<length (mvpMapPoints (fst st))] st"

text \<open>
  \<open>TrackPreviousFrame\<close>, lines 552-616. The three searches of its first half are
  \<open>TrackPreviousFrame_search\<close>: the first window search, the second one when the first
  found fewer than 10, and the reset of the matches when both did.
\<close>

definition TrackPreviousFrame_minOctave :: "MapT \<Rightarrow> Frame \<Rightarrow> int" where
  "TrackPreviousFrame_minOctave cur F =
     (let maxOctave = int (length (mvScaleFactors F)) - 1
      in if KeyFramesInMap cur > 5 then cdiv maxOctave 2 + 1 else 0)"

definition TrackPreviousFrame_search :: "Ext \<Rightarrow> MapT \<Rightarrow> Tracking \<Rightarrow> int \<times> nat option list" where
  "TrackPreviousFrame_search e cur t =
     (let minOctave = TrackPreviousFrame_minOctave cur (mCurrentFrame t);
          (nmatches, vpMapPointMatches) =
             WindowSearch e (mLastFrame t) (mCurrentFrame t) 200 minOctave
      in if nmatches < 10 then
           let (nmatches, vpMapPointMatches) = WindowSearch e (mLastFrame t) (mCurrentFrame t) 100 0
           in if nmatches < 10
              then (0, replicate (length (mvpMapPoints (mCurrentFrame t))) None)
              else (nmatches, vpMapPointMatches)
         else (nmatches, vpMapPointMatches))"

definition TrackPreviousFrame :: "Ext \<Rightarrow> Tracking \<Rightarrow> fault + (bool \<times> Tracking)" where
  "TrackPreviousFrame e t =
     (case getCurrent (mapDB t) of
        None \<Rightarrow> Inl NullPointer
      | Some cur \<Rightarrow>
          let (nmatches, vpMapPointMatches) = TrackPreviousFrame_search e cur t;
              F0 = (mCurrentFrame t)\<lparr>mTcw := mTcw (mLastFrame t), mvpMapPoints := vpMapPointMatches\<rparr>;
              (nmatches, vpMapPointMatches, F1) =
                 (if nmatches \<ge> 10 then
                    let (F, n) = discard_outliers (snd (PoseOptimization e F0), nmatches);
                        (nadd, vp) = SearchByProjection e (mLastFrame t) F 15 vpMapPointMatches
                    in (n + nadd, vp, F)
                  else
                    let (n, vp) = SearchByProjection e (mLastFrame t) F0 50 vpMapPointMatches
                    in (n, vp, F0));
              F2 = F1\<lparr>mvpMapPoints := vpMapPointMatches\<rparr>
          in if nmatches < 10 then Inr (False, t\<lparr>mCurrentFrame := F2\<rparr>)
             else
               let (F, n) = discard_outliers (snd (PoseOptimization e F2), nmatches)
               in Inr (n \<ge> 10, t\<lparr>mCurrentFrame := F\<rparr>))"

text \<open>\<open>TrackWithMotionModel\<close>, lines 618-653.\<close>

definition TrackWithMotionModel :: "Ext \<Rightarrow> Tracking \<Rightarrow> bool \<times> Tracking" where
  "TrackWithMotionModel e t =
     (let F0 = (mCurrentFrame t)
                 \<lparr>mTcw := mat_mul (mVelocity t) (mTcw (mLastFrame t)),
                  mvpMapPoints := map (\<lambda>_. None) (mvpMapPoints (mCurrentFrame t))\<rparr>;
          (nmatches, F1) = SearchByProjectionLast e F0 (mLastFrame t) 15
      in if nmatches < 20 then (False, t\<lparr>mCurrentFrame := F1\<rparr>)
         else
           let (F, n) = discard_matched_outliers (snd (PoseOptimization e F1), nmatches)
           in (n \<ge> 10, t\<lparr>mCurrentFrame := F\<rparr>))"

text \<open>
  \<open>TrackLocalMap\<close>, lines 655-685. \<open>UpdateLocal\<close> stands for the assembly of the local
  window and the search of its MapPoints in the frame (\<open>UpdateReferenceKeyFrames\<close>,
  \<open>UpdateReferencePoints\<close>, \<open>SearchReferencePointsInFrustum\<close>), which read the
  covisibility graph; the visible/found counters of MapPoints are not modelled.
\<close>

definition TrackLocalMap :: "Ext \<Rightarrow> Tracking \<Rightarrow> fault + (bool \<times> Tracking)" where
  "TrackLocalMap e t =
     (case getCurrent (mapDB t) of
        None \<Rightarrow> Inl NullPointer
      | Some cur \<Rightarrow>
          let t1 = t\<lparr>mapDB := updCurrent (\<lambda>m. m\<lparr>mvpReferenceMapPoints := mvpLocalMapPoints t\<rparr>) (mapDB t)\<rparr>;
              (F, kfs, mps, ref) = UpdateLocal e t1;
              t2 = t1\<lparr>mCurrentFrame := F, mvpLocalKeyFrames := kfs, mvpLocalMapPoints := mps,
                      mpReferenceKF := ref\<rparr>;
              (n, F') = PoseOptimization e (mCurrentFrame t2);
              t3 = t2\<lparr>mCurrentFrame := F', mnMatchesInliers := n\<rparr>
          in if mnId (mCurrentFrame t3) < mnLastRelocFrameId t3 + mMaxFrames t3 \<and> n < 50
             then Inr (False, t3)
             else if n < 30 then Inr (False, t3) else Inr (True, t3))"

section \<open>Tracking: keyframe insertion\<close>

text \<open>
  \<open>NeedNewKeyFrame\<close>, lines 688-726. The comparison \<^verbatim>\<open>mnMatchesInliers<nRefMatches*0.9\<close>
  is between reals.
\<close>

definition NeedNewKeyFrame :: "Ext \<Rightarrow> Tracking \<Rightarrow> fault + (bool \<times> Tracking)" where
  "NeedNewKeyFrame e t =
     (if isStopped e \<or> stopRequested e then Inr (False, t)
      else
        bindF (if mnId (mCurrentFrame t) < mnLastRelocFrameId t + mMaxFrames t
               then (case getCurrent (mapDB t) of
                       None \<Rightarrow> Inl NullPointer
                     | Some cur \<Rightarrow> Inr (KeyFramesInMap cur > mMaxFrames t))
               else Inr False)
          (\<lambda>tooSoon.
             if tooSoon then Inr (False, t)
             else
               (case mpReferenceKF t of
                  None \<Rightarrow> Inl NullPointer
                | Some ref \<Rightarrow>
                    let nRefMatches = TrackedMapPoints e ref;
                        bLocalMappingIdle = AcceptKeyFrames e;
                        c1a = mnId (mCurrentFrame t) \<ge> mnLastKeyFrameId t + mMaxFrames t;
                        c1b = mnId (mCurrentFrame t) \<ge> mnLastKeyFrameId t + mMinFrames t
                              \<and> bLocalMappingIdle;
                        c2 = real_of_int (mnMatchesInliers t) < real_of_int nRefMatches * 0.9
                             \<and> mnMatchesInliers t > 15
                    in if (c1a \<or> c1b) \<and> c2 then
                         (if bLocalMappingIdle then Inr (True, t)
                          else Inr (False, emit [InterruptBA] t))
                       else Inr (False, t))))"

definition CreateNewKeyFrame :: "Tracking \<Rightarrow> Tracking" where
  "CreateNewKeyFrame t =
     (let pKF = nNextKF t;
          t1 = t\<lparr>heapKF := (heapKF t)(pKF \<mapsto> new_KeyFrame pKF (mCurrentFrame t)),
                 nNextKF := Suc pKF\<rparr>
      in (emit [InsertKeyFrame pKF] t1)
           \<lparr>mnLastKeyFrameId := mnId (mCurrentFrame t1), mpLastKeyFrame := Some pKF\<rparr>)"


section \<open>Tracking: inline relocalization\<close>

text \<open>
  \<open>RelocalisationInline\<close>, lines 904-1088. The three statements after \<^verbatim>\<open>else\<close> are not
  enclosed in braces, so only \<^verbatim>\<open>reserve(10)\<close> belongs to the \<^verbatim>\<open>else\<close>; the two
  assignments that follow run on both branches. \<open>PnPSearch\<close> stands for lines 929-1060
  (matching each candidate by bag of words and the RANSAC rounds): it answers whether a
  pose with enough inliers was found and returns the frame as it leaves the loop.
\<close>

definition RelocalisationInline_candidates :: "Ext \<Rightarrow> Tracking \<Rightarrow> fault + nat list" where
  "RelocalisationInline_candidates e t =
     (let vpCandidateKFs =
            (case getCurrent (mapDB t) of
               Some cur \<Rightarrow> DetectRelocalisationCandidates e cur (mCurrentFrame t)
             | None \<Rightarrow> [])
      in case mpLastKeyFrame t of
           None \<Rightarrow> Inl NullPointer
         | Some pLast \<Rightarrow>
             let vpCandidateKFs = GetBestCovisibilityKeyFrames e pLast 9;
                 vpCandidateKFs = vpCandidateKFs @ [pLast]
             in Inr vpCandidateKFs)"

definition RelocalisationInline :: "Ext \<Rightarrow> Tracking \<Rightarrow> fault + (bool \<times> Tracking)" where
  "RelocalisationInline e t =
     (let t1 = t\<lparr>mbForceRelocalisationInline := False\<rparr>
      in bindF (RelocalisationInline_candidates e t1)
           (\<lambda>vpCandidateKFs.
              if vpCandidateKFs = [] then Inr (False, t1)
              else
                let (bMatch, F) = PnPSearch e vpCandidateKFs (mCurrentFrame t1);
                    t2 = t1\<lparr>mCurrentFrame := F\<rparr>
                in if \<not> bMatch then Inr (False, t2)
                   else
                     let t3 = t2\<lparr>mnLastRelocFrameId := mnId (mCurrentFrame t2)\<rparr>;
                         t4 = emit [ROS_INFO ''ORB-SLAM - Successful relocalisation to old map. (inline)''] t3;
                         t5 = (ResetRelocalisationRequested t4)\<lparr>mState := WORKING\<rparr>
                     in Inr (True,
                             emit [RequestReset LocalMapper, RequestReset LoopCloser, RequestReset MapMerger,
                                   Release LocalMapper, Release LoopCloser, Release MapMerger,
                                   RequestStop Relocalizer] t5)))"

section \<open>Tracking: one image\<close>

definition SetRelocalisationFrame :: "Frame \<Rightarrow> Tracking \<Rightarrow> Tracking" where
  "SetRelocalisationFrame frame t = t\<lparr>mnLastRelocFrameId := mnId frame, mLastFrame := frame\<rparr>"

definition Mat_empty :: "Mat \<Rightarrow> bool" where
  "Mat_empty A = (concat A = [])"

text \<open>Lines 250-265: the initial pose estimate, by the motion model or from the previous frame.\<close>

definition GrabImage_pose :: "Ext \<Rightarrow> MapT \<Rightarrow> Tracking \<Rightarrow> fault + (bool \<times> Tracking)" where
  "GrabImage_pose e cur t =
     (if \<not> mbMotionModel t \<or> KeyFramesInMap cur < 4 \<or> Mat_empty (mVelocity t)
         \<or> mnId (mCurrentFrame t) < mnLastRelocFrameId t + 2
      then TrackPreviousFrame e t
      else
        let (bOK, t1) = TrackWithMotionModel e t
        in if \<not> bOK then TrackPreviousFrame e t1 else Inr (bOK, t1))"

text \<open>Lines 273-289: keyframe decision and removal of outlier associations.\<close>

definition drop_outlier_points :: "Frame \<Rightarrow> Frame" where
  "drop_outlier_points F =
     fold (\<lambda>i F. if mvpMapPoints F ! i \<noteq> None \<and> mvbOutlier F ! i
                  then F\<lparr>mvpMapPoints := (mvpMapPoints F)[i := None]\<rparr> else F)
       [0..<length (mvbOutlier F)] F"

definition GrabImage_keyframe :: "Ext \<Rightarrow> Tracking \<Rightarrow> fault + Tracking" where
  "GrabImage_keyframe e t =
     bindF (NeedNewKeyFrame e (emit [SetCurrentCameraPose (mTcw (mCurrentFrame t))] t))
       (\<lambda>(need, t1).
          let t2 = (if need then CreateNewKeyFrame t1 else t1)
          in Inr (t2\<lparr>mCurrentFrame := drop_outlier_points (mCurrentFrame t2)\<rparr>))"

text \<open>Lines 291-319: the new state, and the reset of a Map that is lost early.\<close>

definition GrabImage_state :: "bool \<Rightarrow> Tracking \<Rightarrow> fault + Tracking" where
  "GrabImage_state bOK t =
     (let t1 = (if bOK then t\<lparr>mState := WORKING\<rparr>
                else ForceRelocalisation
                       ((emit [ROS_INFO ''ORB-SLAM - Lost tracking, forcing relocalisation and initialization.''] t)
                          \<lparr>mState := NOT_INITIALIZED\<rparr>))
      in if mState t1 = NOT_INITIALIZED then
           (case getCurrent (mapDB t1) of
              None \<Rightarrow> Inl NullPointer
            | Some cur \<Rightarrow>
                bindF (if KeyFramesInMap cur \<le> 5
                       then Reset (emit [ROS_INFO ''ORB-SLAM - Erasing map, too few keyframes.''] t1)
                       else Inr t1)
                  (\<lambda>t2. Inr (emit [RequestStop LocalMapper, RequestStop LoopCloser,
                                     RequestStop MapMerger, Release Relocalizer] t2)))
         else Inr t1)"

text \<open>Lines 321-335: the motion model's velocity.\<close>

definition LastTwc :: "Mat \<Rightarrow> Mat" where
  "LastTwc Tcw =
     (let LastRwc = mat_t (rot_block Tcw);
          Lasttwc = mat_mul (mat_neg LastRwc) (trans_col Tcw)
      in copy_Rt LastRwc Lasttwc (eye 4))"

definition GrabImage_velocity :: "bool \<Rightarrow> Tracking \<Rightarrow> Tracking" where
  "GrabImage_velocity bOK t =
     (if mbMotionModel t then
        (if bOK \<and> \<not> Mat_empty (mTcw (mLastFrame t))
         then t\<lparr>mVelocity := mat_mul (mTcw (mCurrentFrame t)) (LastTwc (mTcw (mLastFrame t)))\<rparr>
         else t\<lparr>mVelocity := []\<rparr>)
      else t)"

text \<open>
  Lines 238-337, the branch for state \<open>WORKING\<close>. The first component of the result says
  whether \<open>GrabImage\<close> returns at once (line 247).
\<close>

definition GrabImage_working :: "Ext \<Rightarrow> Tracking \<Rightarrow> fault + (bool \<times> Tracking)" where
  "GrabImage_working e t =
     (case getCurrent (mapDB t) of
        None \<Rightarrow> Inr (True, (emit [ROS_ERROR ''CURRENT MAP IS NULL''] t)\<lparr>mState := NOT_INITIALIZED\<rparr>)
      | Some cur \<Rightarrow>
          bindF (GrabImage_pose e cur t)
            (\<lambda>(bOK, t1).
               bindF (if bOK then TrackLocalMap e t1 else Inr (bOK, t1))
                 (\<lambda>(bOK, t2).
                    bindF (if bOK then GrabImage_keyframe e t2 else Inr t2)
                      (\<lambda>t3. bindF (GrabImage_state bOK t3)
                               (\<lambda>t4. Inr (False, GrabImage_velocity bOK t4))))))"

text \<open>Lines 192-216: a relocalization by the Relocalization thread is taken over.\<close>

definition GrabImage_relocalize :: "Ext \<Rightarrow> Tracking \<Rightarrow> Tracking" where
  "GrabImage_relocalize e t =
     (if RelocalisationRequested t then
        let t1 = (if isAcceptingFrames e then emit [AddFrame (mCurrentFrame t)] t else t);
            (ok, frame, db) = relocalizeIfSuccessfull e t1
        in if ok then
             publishersRequest False
               (emit [RequestReset LocalMapper, RequestReset LoopCloser, RequestReset MapMerger,
                      Release LocalMapper, Release LoopCloser, Release MapMerger,
                      RequestStop Relocalizer]
                  ((SetRelocalisationFrame frame t1)\<lparr>mapDB := db, mState := WORKING\<rparr>))
           else t1
      else t)"

definition PublishTopics :: "Tracking \<Rightarrow> Tracking" where
  "PublishTopics t =
     (if \<not> Mat_empty (mTcw (mCurrentFrame t))
      then emit [SendTransform (LastTwc (mTcw (mCurrentFrame t)))] t
      else t)"

text \<open>Lines 186-222: the frame is built and the state before the dispatch is fixed.\<close>

definition GrabImage_begin :: "Ext \<Rightarrow> ImageMsg \<Rightarrow> Tracking \<Rightarrow> Tracking" where
  "GrabImage_begin e msg t =
     (let t1 = t\<lparr>mCurrentFrame :=
                   newFrame e (if mState t = WORKING then mpORBextractor else mpIniORBextractor) msg\<rparr>;
          t2 = GrabImage_relocalize e t1;
          t3 = t2\<lparr>mLastProcessedState := mState t2\<rparr>
      in if mState t3 = NO_IMAGES_YET then t3\<lparr>mState := NOT_INITIALIZED\<rparr> else t3)"

text \<open>Lines 343-359: inline relocalization when requested, publishing, and the frame queue.\<close>

definition GrabImage_end :: "Ext \<Rightarrow> Tracking \<Rightarrow> fault + Tracking" where
  "GrabImage_end e t =
     bindF (if RelocalisationInlineRequested t
            then bindF (RelocalisationInline e t) (\<lambda>(b, t1). Inr t1)
            else Inr t)
       (\<lambda>t1. let t2 = PublishTopics (emit [FpsUpdate] t1);
                  t3 = t2\<lparr>mLastFrame := mCurrentFrame t2\<rparr>
              in Inr (emit [FramePublisherUpdate] t3))"

text \<open>
  \<open>GrabImage\<close>, lines 155-361. \<^verbatim>\<open>cv_bridge::toCvShare\<close> throws exactly when the message is
  not convertible. \<^verbatim>\<open>ROS_ASSERT\<close> stops the process when assertions are compiled in and
  does nothing otherwise.
\<close>

definition GrabImage :: "Ext \<Rightarrow> ImageMsg \<Rightarrow> Tracking \<Rightarrow> fault + Tracking" where
  "GrabImage e msg t =
     (if \<not> msg_convertible msg then Inr (emit [ROS_ERROR ''cv_bridge exception: %s''] t)
      else if ROS_ASSERT_ENABLED e \<and> \<not> (msg_channels msg = 3 \<or> msg_channels msg = 1)
      then Inl AssertionFailed
      else
        let t1 = GrabImage_begin e msg t
        in bindF (if mState t1 = NOT_INITIALIZED then Inr (False, FirstInitialization t1)
                  else if mState t1 = INITIALIZING
                  then bindF (Initialize e t1) (\<lambda>t2. Inr (False, t2))
                  else if mState t1 = WORKING then GrabImage_working e t1
                  else Inr (False,
                            emit [ROS_ERROR ''ORB-SLAM - Unknown tracking state, this should not happen.''] t1))
             (\<lambda>(returned, t2). if returned then Inr t2 else GrabImage_end e t2))"

section \<open>main: the trajectory files\<close>

text \<open>
  Lines 179-220 of \<^verbatim>\<open>main.cc\<close>. A number written with \<^verbatim>\<open>fixed\<close> and
  \<^verbatim>\<open>setprecision(n)\<close> is the token \<open>Fixed n x\<close>; a line is its tokens, which the code
  separates by single blanks and ends with \<^verbatim>\<open>endl\<close>. A file is named by the index of its
  Map in the database. \<^verbatim>\<open>Converter::toQuaternion\<close> is a parameter.

  Modelled from the spec: the \<^verbatim>\<open>KeyFrame\<close> accessors and the comparison
  \<^verbatim>\<open>KeyFrame::lId\<close> are not among the two source files. \<open>GetRotation\<close> is the rotation
  block of the world-to-camera pose, \<open>GetCameraCenter\<close> the camera centre in the world
  frame, \<open>isBad\<close> the bad flag, and \<open>lId\<close> orders KeyFrames by id.
\<close>

datatype token = Fixed nat cfloat

definition GetRotation :: "KeyFrame \<Rightarrow> Mat" where
  "GetRotation k = rot_block (kf_Tcw k)"

definition GetCameraCenter :: "KeyFrame \<Rightarrow> Mat" where
  "GetCameraCenter k = mat_mul (mat_neg (mat_t (rot_block (kf_Tcw k)))) (trans_col (kf_Tcw k))"

definition isBad :: "KeyFrame \<Rightarrow> bool" where
  "isBad k = kf_mbBad k"

definition GetAllKeyFrames :: "(nat \<Rightarrow> KeyFrame option) \<Rightarrow> MapT \<Rightarrow> KeyFrame list" where
  "GetAllKeyFrames h m = List.map_filter h (mspKeyFrames m)"

definition trajectory_line :: "(Mat \<Rightarrow> cfloat list) \<Rightarrow> KeyFrame \<Rightarrow> token list" where
  "trajectory_line toQuaternion pKF =
     (let R = mat_t (GetRotation pKF);
          q = toQuaternion R;
          t = GetCameraCenter pKF
      in [Fixed 6 (kf_mTimeStamp pKF),
          Fixed 7 (t ! 0 ! 0), Fixed 7 (t ! 1 ! 0), Fixed 7 (t ! 2 ! 0),
          Fixed 7 (q ! 0), Fixed 7 (q ! 1), Fixed 7 (q ! 2), Fixed 7 (q ! 3)])"

definition trajectory_file :: "(nat \<Rightarrow> KeyFrame option) \<Rightarrow> (Mat \<Rightarrow> cfloat list) \<Rightarrow> MapT \<Rightarrow> token list list" where
  "trajectory_file h toQuaternion m =
     (let vpKFs = sort_key kf_mnId (GetAllKeyFrames h m)
      in map (trajectory_line toQuaternion) (filter (\<lambda>pKF. \<not> isBad pKF) vpKFs))"

definition save_trajectories ::
  "(nat \<Rightarrow> KeyFrame option) \<Rightarrow> (Mat \<Rightarrow> cfloat list) \<Rightarrow> MapDatabase \<Rightarrow> (nat \<times> token list list) list" where
  "save_trajectories h toQuaternion db =
     map (\<lambda>i. (i, trajectory_file h toQuaternion (db_maps db ! i)))
       (filter (\<lambda>i. \<not> mbErased (db_maps db ! i)) [0..<length (db_maps db)])"


section \<open>The keyframe criteria in the words of the specification\<close>

text \<open>
  The criteria of the insertion policy other than "LocalMapping is idle", for the current
  Map \<open>cur\<close> and the reference KeyFrame \<open>ref\<close>.
\<close>

definition insertion_criteria :: "Ext \<Rightarrow> MapT \<Rightarrow> nat \<Rightarrow> Tracking \<Rightarrow> bool" where
  "insertion_criteria e cur ref t =
     (\<not> isStopped e \<and> \<not> stopRequested e
      \<and> (mnId (mCurrentFrame t) \<ge> mnLastRelocFrameId t + mMaxFrames t
          \<or> KeyFramesInMap cur \<le> mMaxFrames t)
      \<and> (mnId (mCurrentFrame t) \<ge> mnLastKeyFrameId t + mMaxFrames t
          \<or> (mnId (mCurrentFrame t) \<ge> mnLastKeyFrameId t + mMinFrames t \<and> AcceptKeyFrames e))
      \<and> real_of_int (mnMatchesInliers t) < 0.9 * real_of_int (TrackedMapPoints e ref)
      \<and> mnMatchesInliers t > 15)"

section \<open>Concrete states\<close>

text \<open>
  The state the constructor builds (lines 47-145) for the settings \<^verbatim>\<open>Camera.RGB\<close>,
  \<^verbatim>\<open>UseMotionModel\<close> and \<^verbatim>\<open>Camera.fps\<close>; members the constructor does not set are
  zero, empty or \<^verbatim>\<open>NULL\<close> here.
\<close>

definition frame0 :: Frame where
  "frame0 = \<lparr>mnId = 0, mTimeStamp = 0, mvKeys = [], mvKeysUn = [], mvScaleFactors = [],
             mTcw = [], mvpMapPoints = [], mvbOutlier = []\<rparr>"

definition Tracking_new :: "bool \<Rightarrow> bool \<Rightarrow> real \<Rightarrow> Tracking" where
  "Tracking_new nRGB nMotion fps0 =
     (let fps = (if fps0 = 0 then 30 else fps0)
      in \<lparr>mState = NO_IMAGES_YET, mLastProcessedState = NO_IMAGES_YET,
          mCurrentFrame = frame0, mLastFrame = frame0, mInitialFrame = frame0,
          mpInitializer = None, mvbPrevMatched = [], mvIniMatches = [], mvIniP3D = [],
          mbMotionModel = nMotion, mbRGB = nRGB,
          mVelocity = (if nMotion then eye 4 else []),
          mMinFrames = 0, mMaxFrames = nat \<lfloor>18 * fps / 30\<rfloor>,
          mnLastKeyFrameId = 0, mnLastRelocFrameId = 0, mnMatchesInliers = 0,
          mpLastKeyFrame = None, mpReferenceKF = None,
          mvpLocalKeyFrames = [], mvpLocalMapPoints = [],
          mbForceRelocalisation = False, mbForceRelocalisationInline = False, mbReseting = False,
          localMap = None, mapDB = \<lparr>db_maps = [], db_current = None\<rparr>,
          heapKF = (\<lambda>_. None), heapMP = (\<lambda>_. None), nNextKF = 0, nNextMP = 0,
          events = []\<rparr>)"

text \<open>Collaborators that find nothing, and a LocalMapping that is running and busy.\<close>

definition ext0 :: Ext where
  "ext0 = \<lparr>newFrame = (\<lambda>_ _. frame0), isAcceptingFrames = False, ROS_ASSERT_ENABLED = True,
           relocalizeIfSuccessfull = (\<lambda>t. (False, frame0, mapDB t)),
           SearchForInitialization = (\<lambda>_ _ prev ini _. (0, prev, ini)),
           Initializer_Initialize = (\<lambda>_ _ _. (False, [], [], [], [])),
           ba_pose = (\<lambda>_. eye 4), ba_pos = (\<lambda>_. [0, 0, 1]),
           WindowSearch = (\<lambda>_ _ _ _. (0, [])),
           SearchByProjection = (\<lambda>_ _ _ vp. (0, vp)),
           SearchByProjectionLast = (\<lambda>F _ _. (0, F)),
           PoseOptimization = (\<lambda>F. (0, F)),
           UpdateLocal = (\<lambda>t. (mCurrentFrame t, [], [], None)),
           isStopped = False, stopRequested = False, AcceptKeyFrames = False,
           TrackedMapPoints = (\<lambda>_. 0), ComputeSceneMedianDepth = (\<lambda>_ _. 1),
           DetectRelocalisationCandidates = (\<lambda>_ _. []),
           GetBestCovisibilityKeyFrames = (\<lambda>_ _. []),
           PnPSearch = (\<lambda>_ F. (False, F))\<rparr>"

text \<open>A Map with \<open>n\<close> KeyFrames, and a tracker at work on it as its only, current Map.\<close>

definition map_of_size :: "nat \<Rightarrow> MapT" where
  "map_of_size n = getNewMap\<lparr>mspKeyFrames := [0..<n]\<rparr>"

definition working_on :: "nat \<Rightarrow> Tracking" where
  "working_on n =
     (Tracking_new False True 30)
       \<lparr>mState := WORKING, mapDB := addMap \<lparr>db_maps = [], db_current = None\<rparr> (map_of_size n),
        mpLastKeyFrame := Some 1, mpReferenceKF := Some 1, nNextKF := n\<rparr>"

text \<open>A tracker twenty frames after its last KeyFrame, with 50 inliers.\<close>

definition tKF :: Tracking where
  "tKF = (working_on 3)\<lparr>mCurrentFrame := frame0\<lparr>mnId := 20\<rparr>, mnMatchesInliers := 50\<rparr>"

definition eKF :: "bool \<Rightarrow> Ext" where
  "eKF idle = ext0\<lparr>AcceptKeyFrames := idle, TrackedMapPoints := (\<lambda>_. 100)\<rparr>"

text \<open>
  A database that proposes KeyFrame 7 while the last KeyFrame, 1, has the covisible
  KeyFrames 4 and 5.
\<close>

definition e1 :: Ext where
  "e1 = ext0\<lparr>DetectRelocalisationCandidates := (\<lambda>_ _. [7]),
             GetBestCovisibilityKeyFrames := (\<lambda>k n. if k = 1 \<and> n = 9 then [4, 5] else [])\<rparr>"

text \<open>Image messages: a grayscale one, one with two channels, one the bridge rejects.\<close>

definition msg1 :: ImageMsg where
  "msg1 = \<lparr>msg_convertible = True, msg_channels = 1, msg_stamp = 0\<rparr>"

definition msg2 :: ImageMsg where
  "msg2 = \<lparr>msg_convertible = True, msg_channels = 2, msg_stamp = 0\<rparr>"

definition msg_bad :: ImageMsg where
  "msg_bad = \<lparr>msg_convertible = False, msg_channels = 1, msg_stamp = 0\<rparr>"

text \<open>A matcher whose window searches find nothing and whose 50-pixel projection search finds 40.\<close>

definition e8 :: Ext where
  "e8 = ext0\<lparr>SearchByProjection := (\<lambda>_ _ th vp. (if th = 50 then 40 else 0, vp))\<rparr>"

text \<open>A tracker in state \<open>WORKING\<close> whose database has no current Map.\<close>

definition tNull :: Tracking where
  "tNull = (Tracking_new False True 30)\<lparr>mState := WORKING\<rparr>"

text \<open>A tracker that has just received frame 9 while at work on a Map with \<open>n\<close> KeyFrames.\<close>

definition tLost :: "nat \<Rightarrow> Tracking" where
  "tLost n = (working_on n)\<lparr>mCurrentFrame := frame0\<lparr>mnId := 9\<rparr>\<rparr>"

section \<open>The initialization gate in the words of the specification\<close>

text \<open>
  The matcher's answer in \<open>Initialize\<close>, whether the two-view initializer succeeds on it,
  and the rejection test of \<open>CreateInitialMap\<close> (the two new KeyFrames get the next two
  addresses).
\<close>

definition Initialize_matches :: "Ext \<Rightarrow> Tracking \<Rightarrow> int \<times> KeyPoint list \<times> int list" where
  "Initialize_matches e t =
     SearchForInitialization e (mInitialFrame t) (mCurrentFrame t) (mvbPrevMatched t) (mvIniMatches t) 100"

definition Initialize_twoview :: "Ext \<Rightarrow> Tracking \<Rightarrow> bool" where
  "Initialize_twoview e t =
     fst (Initializer_Initialize e (mpInitializer t) (mCurrentFrame t) (snd (snd (Initialize_matches e t))))"

definition initial_map_rejected :: "Ext \<Rightarrow> Tracking \<Rightarrow> bool" where
  "initial_map_rejected e t =
     (ComputeSceneMedianDepth e (nNextKF t) 2 < 0 \<or> TrackedMapPoints e (Suc (nNextKF t)) < 100)"

text \<open>
  A frame with \<open>n\<close> keypoints; a tracker that is initializing on such a frame; a matcher
  that finds 100 correspondences and an initializer that succeeds, with the median depth
  and the number of tracked MapPoints given.
\<close>

definition frame_with :: "nat \<Rightarrow> Frame" where
  "frame_with n = frame0\<lparr>mvKeys := replicate n (0, 0), mvKeysUn := replicate n (0, 0),
                         mvpMapPoints := replicate n None, mvbOutlier := replicate n False\<rparr>"

definition tIni :: "eTrackingState \<Rightarrow> nat \<Rightarrow> Tracking" where
  "tIni st n = (Tracking_new False True 30)
                 \<lparr>mState := st, mCurrentFrame := frame_with n, mInitialFrame := frame_with n,
                  mpInitializer := Some (frame_with n)\<rparr>"

definition eIni :: "cfloat \<Rightarrow> int \<Rightarrow> Ext" where
  "eIni depth tracked =
     ext0\<lparr>SearchForInitialization := (\<lambda>_ _ prev _ _. (100, prev, replicate 101 (- 1))),
          Initializer_Initialize := (\<lambda>_ _ _. (True, eye 3, [[0], [0], [1]], [], [])),
          ComputeSceneMedianDepth := (\<lambda>_ _. depth), TrackedMapPoints := (\<lambda>_. tracked)\<rparr>"

section \<open>The motion model in the words of the specification\<close>

text \<open>
  A rigid transform: a 4x4 matrix of finite numbers with last row \<open>(0, 0, 0, 1)\<close> whose
  rotation block \<open>R\<close> satisfies \<open>R\<^sup>T R = I\<close>.
\<close>

definition is_rigid :: "Mat \<Rightarrow> bool" where
  "is_rigid T = (length T = 4 \<and> list_all (\<lambda>r. length r = 4 \<and> list_all is_finite r) T
                 \<and> T ! 3 = [0, 0, 0, 1]
                 \<and> mat_mul (mat_t (rot_block T)) (rot_block T) = eye 3)"

text \<open>The translation by \<open>a\<close> along the first axis.\<close>

definition shift_x :: "real \<Rightarrow> Mat" where
  "shift_x a = [[1, 0, 0, Fin a], [0, 1, 0, 0], [0, 0, 1, 0], [0, 0, 0, 1]]"

text \<open>
  A tracker without the motion model at the update of the velocity (line 321), both
  poses the identity. A tracker with the motion model that has just received frame 3: the
  previous frame stands at \<open>shift_x 3\<close> and the velocity is \<open>shift_x 2\<close>. Collaborators
  for which tracking succeeds: the projection search of radius 15 finds 25 matches, the
  pose optimization keeps the frame and reports 60 inliers, and the local window has the
  reference KeyFrame 1, which tracks 100 MapPoints.
\<close>

definition tNoMM :: Tracking where
  "tNoMM = (Tracking_new False False 30)
             \<lparr>mState := WORKING, mCurrentFrame := frame0\<lparr>mnId := 3, mTcw := eye 4\<rparr>,
              mLastFrame := frame0\<lparr>mnId := 2, mTcw := eye 4\<rparr>\<rparr>"

definition tMM :: Tracking where
  "tMM = (working_on 4)
             \<lparr>mCurrentFrame := frame0\<lparr>mnId := 3\<rparr>,
              mLastFrame := frame0\<lparr>mnId := 2, mTcw := shift_x 3\<rparr>,
              mVelocity := shift_x 2\<rparr>"

definition eMM :: Ext where
  "eMM = ext0\<lparr>SearchByProjectionLast := (\<lambda>F _ th. (if th = 15 then 25 else 0, F)),
              PoseOptimization := (\<lambda>F. (60, F)),
              UpdateLocal := (\<lambda>t. (mCurrentFrame t, [1], [], Some 1)),
              TrackedMapPoints := (\<lambda>_. 100)\<rparr>"

text \<open>
  A store with four KeyFrames, the second of them bad, and a database of two Maps, the
  second of them erased; a quaternion conversion that always answers the identity.
\<close>

definition kfA :: "nat \<Rightarrow> cfloat \<Rightarrow> bool \<Rightarrow> KeyFrame" where
  "kfA a ts bad = \<lparr>kf_mnId = a, kf_mnFrameId = a, kf_mTimeStamp = ts,
                   kf_Tcw = [[1,0,0,Fin (- real a)],[0,1,0,0],[0,0,1,0],[0,0,0,1]],
                   kf_mvpMapPoints = [], kf_mbBad = bad\<rparr>"

definition heap9 :: "nat \<Rightarrow> KeyFrame option" where
  "heap9 = (\<lambda>_. None)(0 \<mapsto> kfA 0 10 False, 1 \<mapsto> kfA 1 11 True, 2 \<mapsto> kfA 2 12 False, 3 \<mapsto> kfA 3 13 False)"

definition db9 :: MapDatabase where
  "db9 = \<lparr>db_maps = [(map_of_size 0)\<lparr>mspKeyFrames := [2, 1, 0]\<rparr>,
                      (map_of_size 0)\<lparr>mspKeyFrames := [3], mbErased := True\<rparr>],
          db_current = Some 0\<rparr>"

definition quat0 :: "Mat \<Rightarrow> cfloat list" where
  "quat0 R = [0, 0, 0, 1]"

section \<open>The initial Map in the words of the specification\<close>

text \<open>The non-null entries of a vector of MapPoint pointers, in order.\<close>

fun somes :: "'a option list \<Rightarrow> 'a list" where
  "somes [] = []"
| "somes (None # xs) = somes xs"
| "somes (Some x # xs) = x # somes xs"






text \<open>
  The state of the loop that creates the MapPoints (lines 451-476) after \<open>k\<close> rounds:
  the addresses from \<open>n0\<close> up to the allocation counter are the new MapPoints, one for
  each match among the first \<open>k\<close> entries; they are the MapPoints of the new Map and, in
  this order, the associations of the initial KeyFrame, whose entries from \<open>k\<close> on are
  still null.
\<close>

definition build_inv :: "nat \<Rightarrow> nat \<Rightarrow> int list \<Rightarrow> nat \<Rightarrow> nat \<Rightarrow> nat \<Rightarrow> Tracking \<Rightarrow> bool" where
  "build_inv ini cur ms n0 len0 k t =
     (mvIniMatches t = ms \<and> nNextMP t = n0 + length (filter (\<lambda>i. 0 \<le> ms ! i) [0..<k])
      \<and> (\<exists>m. localMap t = Some m \<and> mspKeyFrames m = [ini, cur] \<and> mspMapPoints m = [n0..<nNextMP t]
               \<and> \<not> mbErased m)
      \<and> (\<exists>K. heapKF t ini = Some K \<and> somes (kf_mvpMapPoints K) = [n0..<nNextMP t]
               \<and> length (kf_mvpMapPoints K) = len0
               \<and> (\<forall>i. k \<le> i \<and> i < len0 \<longrightarrow> kf_mvpMapPoints K ! i = None))
      \<and> (\<exists>K. heapKF t cur = Some K)
      \<and> (\<forall>p. n0 \<le> p \<and> p < nNextMP t \<longrightarrow> heapMP t p \<noteq> None))"




section \<open>Reachable states\<close>

text \<open>
  The states of the tracker between two images: it starts as the constructor leaves it,
  processes images, and in between the other threads may call its public setters and
  change the shared database and store.
\<close>

inductive reachable :: "Tracking \<Rightarrow> bool" where
  constructed: "reachable (Tracking_new nRGB nMotion fps)"
| image: "reachable t \<Longrightarrow> GrabImage e msg t = Inr t' \<Longrightarrow> reachable t'"
| force_inline: "reachable t \<Longrightarrow> reachable (ForceInlineRelocalisation t)"
| relocalised: "reachable t \<Longrightarrow> reachable (SetRelocalisationFrame frame t)"
| shared: "reachable t \<Longrightarrow> reachable (t\<lparr>mapDB := db, heapKF := hk, heapMP := hm\<rparr>)"

section \<open>Verified properties\<close>

subsection \<open>Floats\<close>

lemma numeral_cfloat: "numeral k = Fin (numeral k)"
proof (induction k)
  case One
  show ?case by (simp only: numeral.simps one_cfloat_def)
next
  case (Bit0 k)
  have "(numeral (num.Bit0 k) :: cfloat) = numeral k + numeral k" by (simp only: numeral.simps)
  also have "\<dots> = Fin (numeral k + numeral k)" unfolding Bit0 by simp
  also have "numeral k + numeral k = (numeral (num.Bit0 k) :: real)" by (simp only: numeral.simps)
  finally show ?case .
next
  case (Bit1 k)
  have "(numeral (num.Bit1 k) :: cfloat) = numeral k + numeral k + 1" by (simp only: numeral.simps)
  also have "\<dots> = Fin (numeral k + numeral k + 1)" unfolding Bit1 one_cfloat_def by simp
  also have "numeral k + numeral k + 1 = (numeral (num.Bit1 k) :: real)" by (simp only: numeral.simps)
  finally show ?case .
qed

lemmas cfloat_simps = zero_cfloat_def one_cfloat_def numeral_cfloat

subsection \<open>Projections through the helpers\<close>

lemma emit_fields [simp]:
  "mapDB (emit es t) = mapDB t" "mpReferenceKF (emit es t) = mpReferenceKF t"
  "mCurrentFrame (emit es t) = mCurrentFrame t" "mnLastRelocFrameId (emit es t) = mnLastRelocFrameId t"
  "mMaxFrames (emit es t) = mMaxFrames t" "mMinFrames (emit es t) = mMinFrames t"
  "mnLastKeyFrameId (emit es t) = mnLastKeyFrameId t" "mnMatchesInliers (emit es t) = mnMatchesInliers t"
  "events (emit es t) = events t @ es" "nNextKF (emit es t) = nNextKF t"
  "mState (emit es t) = mState t" "localMap (emit es t) = localMap t"
  "mbForceRelocalisation (emit es t) = mbForceRelocalisation t"
  "mVelocity (emit es t) = mVelocity t" "mbMotionModel (emit es t) = mbMotionModel t"
  "mLastFrame (emit es t) = mLastFrame t" "mpLastKeyFrame (emit es t) = mpLastKeyFrame t"
  by (simp_all add: emit_def)

subsection \<open>Keyframe insertion\<close>

lemma NeedNewKeyFrame_eq:
  assumes "getCurrent (mapDB t) = Some cur" and "mpReferenceKF t = Some ref"
  shows "NeedNewKeyFrame e t =
           Inr (insertion_criteria e cur ref t \<and> AcceptKeyFrames e,
                if insertion_criteria e cur ref t \<and> \<not> AcceptKeyFrames e then emit [InterruptBA] t else t)"
  using assms unfolding NeedNewKeyFrame_def insertion_criteria_def bindF_def Let_def
  by (auto simp: not_less not_le mult.commute)

text \<open>
  C4. With a current Map and a reference KeyFrame, \<open>NeedNewKeyFrame\<close> answers yes exactly
  when LocalMapping is neither stopped nor asked to stop, enough frames have passed since
  the last relocalization or the Map has at most \<open>mMaxFrames\<close> KeyFrames, \<open>mMaxFrames\<close>
  frames have passed since the last KeyFrame (or \<open>mMinFrames\<close> and LocalMapping is idle),
  the inliers are more than 15 and fewer than 90% of the reference KeyFrame's tracked
  MapPoints, and LocalMapping is idle. When all but the idleness hold, the bundle
  adjustment is interrupted and the answer is no. \<open>GrabImage\<close> hands a KeyFrame to
  LocalMapping exactly on a yes.
\<close>

theorem keyframe_insertion_policy:
  assumes "getCurrent (mapDB t) = Some cur" and "mpReferenceKF t = Some ref"
  shows "NeedNewKeyFrame e t =
           Inr (insertion_criteria e cur ref t \<and> AcceptKeyFrames e,
                if insertion_criteria e cur ref t \<and> \<not> AcceptKeyFrames e then emit [InterruptBA] t else t)
         \<and> (\<exists>t'. GrabImage_keyframe e t = Inr t' \<and>
               events t' = events t @ [SetCurrentCameraPose (mTcw (mCurrentFrame t))] @
                 (if insertion_criteria e cur ref t \<and> AcceptKeyFrames e then [InsertKeyFrame (nNextKF t)]
                  else if insertion_criteria e cur ref t then [InterruptBA] else []))"
proof -
  let ?t0 = "emit [SetCurrentCameraPose (mTcw (mCurrentFrame t))] t"
  have c: "insertion_criteria e cur ref ?t0 = insertion_criteria e cur ref t"
    by (simp add: insertion_criteria_def)
  have "getCurrent (mapDB ?t0) = Some cur" "mpReferenceKF ?t0 = Some ref" using assms by simp_all
  note NeedNewKeyFrame_eq [OF this, of e]
  then have "\<exists>t'. GrabImage_keyframe e t = Inr t' \<and>
               events t' = events t @ [SetCurrentCameraPose (mTcw (mCurrentFrame t))] @
                 (if insertion_criteria e cur ref t \<and> AcceptKeyFrames e then [InsertKeyFrame (nNextKF t)]
                  else if insertion_criteria e cur ref t then [InterruptBA] else [])"
    unfolding GrabImage_keyframe_def
    by (simp add: bindF_def c CreateNewKeyFrame_def Let_def)
  with NeedNewKeyFrame_eq [OF assms] show ?thesis by blast
qed

theorem keyframe_insertion_policy_witness:
  "getCurrent (mapDB tKF) = Some (map_of_size 3) \<and> mpReferenceKF tKF = Some 1
   \<and> NeedNewKeyFrame (eKF True) tKF = Inr (True, tKF)
   \<and> NeedNewKeyFrame (eKF False) tKF = Inr (False, emit [InterruptBA] tKF)"
  using keyframe_insertion_policy [of tKF "map_of_size 3" 1 "eKF True"]
        keyframe_insertion_policy [of tKF "map_of_size 3" 1 "eKF False"]
  by (simp add: tKF_def eKF_def ext0_def getCurrent_def addMap_def working_on_def Tracking_new_def
        insertion_criteria_def frame0_def map_of_size_def getNewMap_def KeyFramesInMap_def)

subsection \<open>Inline relocalization\<close>

lemma inline_candidates_eq:
  "mpLastKeyFrame t = Some k \<Longrightarrow>
   RelocalisationInline_candidates e t = Inr (GetBestCovisibilityKeyFrames e k 9 @ [k])"
  by (simp add: RelocalisationInline_candidates_def Let_def)

text \<open>
  C1. The claim is that with a current Map the candidates are those of the Map's
  KeyFrameDatabase. They are not: the database's answer is overwritten, and the
  candidates are the last KeyFrame's nine best covisible KeyFrames followed by the last
  KeyFrame, whatever the database proposed (\<open>inline_candidates_eq\<close>). Here the current
  Map exists, the database proposes KeyFrame 7, and the candidates are 4, 5 and 1.
\<close>

theorem inline_candidates_failing_input:
  "getCurrent (mapDB (working_on 3)) = Some (map_of_size 3)
   \<and> DetectRelocalisationCandidates e1 (map_of_size 3) (mCurrentFrame (working_on 3)) = [7]
   \<and> RelocalisationInline_candidates e1 (working_on 3) = Inr [4, 5, 1]"
  by (simp add: RelocalisationInline_candidates_def Let_def e1_def ext0_def working_on_def
        getCurrent_def addMap_def Tracking_new_def)

subsection \<open>Malformed images\<close>

text \<open>
  C2, as amended. When the bridge conversion throws, \<open>GrabImage\<close> logs the exception and
  returns with every field of the tracker but the log as it was. An image whose channel
  count is neither 1 nor 3 is not skipped: it fails the assertion, which stops the
  process when assertions are enabled.
\<close>

theorem malformed_image:
  "(\<not> msg_convertible msg \<longrightarrow> GrabImage e msg t = Inr (emit [ROS_ERROR ''cv_bridge exception: %s''] t))
   \<and> (msg_convertible msg \<and> msg_channels msg \<noteq> 1 \<and> msg_channels msg \<noteq> 3 \<and> ROS_ASSERT_ENABLED e
        \<longrightarrow> GrabImage e msg t = Inl AssertionFailed)"
  by (simp add: GrabImage_def)

theorem malformed_image_witness:
  "\<not> msg_convertible msg_bad
   \<and> GrabImage ext0 msg_bad tNull = Inr (emit [ROS_ERROR ''cv_bridge exception: %s''] tNull)
   \<and> msg_convertible msg2 \<and> msg_channels msg2 \<noteq> 1 \<and> msg_channels msg2 \<noteq> 3 \<and> ROS_ASSERT_ENABLED ext0
   \<and> GrabImage ext0 msg2 tNull = Inl AssertionFailed"
  using malformed_image [of msg_bad ext0 tNull] malformed_image [of msg2 ext0 tNull]
  by (simp add: msg_bad_def msg2_def ext0_def)

text \<open>
  C2 as stated fails for an image with two channels: with assertions enabled the call
  does not return a tracker at all, and with assertions disabled the image is processed
  and the state moves from \<open>NO_IMAGES_YET\<close> to \<open>NOT_INITIALIZED\<close>.
\<close>

theorem malformed_image_counterexample:
  "msg_channels msg2 \<noteq> 1 \<and> msg_channels msg2 \<noteq> 3
   \<and> GrabImage ext0 msg2 (Tracking_new False True 30) = Inl AssertionFailed
   \<and> mState (Tracking_new False True 30) = NO_IMAGES_YET
   \<and> map_sum id mState (GrabImage (ext0\<lparr>ROS_ASSERT_ENABLED := False\<rparr>) msg2 (Tracking_new False True 30))
       = Inr NOT_INITIALIZED"
  by (simp add: GrabImage_def msg2_def ext0_def Tracking_new_def GrabImage_begin_def Let_def
        GrabImage_relocalize_def RelocalisationRequested_def FirstInitialization_def frame0_def
        bindF_def GrabImage_end_def RelocalisationInlineRequested_def PublishTopics_def Mat_empty_def emit_def)

subsection \<open>Tracking from the previous frame\<close>

lemma discard_outliers_prefix:
  "k \<le> length (mvbOutlier F) \<Longrightarrow>
   (case fold (\<lambda>i (F, n). if mvbOutlier F ! i
                       then (F\<lparr>mvpMapPoints := (mvpMapPoints F)[i := None],
                               mvbOutlier := (mvbOutlier F)[i := False]\<rparr>, n - 1)
                       else (F, n)) [0..<k] (F, n) of
      (F', n') \<Rightarrow> mvbOutlier F' = replicate k False @ drop k (mvbOutlier F)
                 \<and> n' = n - int (length (filter id (take k (mvbOutlier F)))))"
proof (induction k)
  case 0
  then show ?case by simp
next
  case (Suc k)
  then have k: "k < length (mvbOutlier F)" by simp
  have d: "drop k (mvbOutlier F) = mvbOutlier F ! k # drop (Suc k) (mvbOutlier F)"
    using k by (simp add: Cons_nth_drop_Suc)
  have t: "take (Suc k) (mvbOutlier F) = take k (mvbOutlier F) @ [mvbOutlier F ! k]"
    using k by (simp add: take_Suc_conv_app_nth)
  from Suc show ?case
    by (auto simp: d t nth_append list_update_append replicate_app_Cons_same split: prod.splits)
qed

lemma discard_outliers_count:
  "snd (discard_outliers (F, n)) = n - int (length (filter id (mvbOutlier F)))"
  using discard_outliers_prefix [of "length (mvbOutlier F)" F n]
  by (simp add: discard_outliers_def split: prod.splits)

lemma TrackPreviousFrame_search_eq:
  "TrackPreviousFrame_search e cur t =
     (let w1 = WindowSearch e (mLastFrame t) (mCurrentFrame t) 200
                 (if 5 < KeyFramesInMap cur
                  then cdiv (int (length (mvScaleFactors (mCurrentFrame t))) - 1) 2 + 1 else 0);
          w2 = WindowSearch e (mLastFrame t) (mCurrentFrame t) 100 0
      in if fst w1 \<ge> 10 then w1 else if fst w2 \<ge> 10 then w2
         else (0, replicate (length (mvpMapPoints (mCurrentFrame t))) None))"
  by (auto simp: TrackPreviousFrame_search_def TrackPreviousFrame_minOctave_def Let_def split: prod.splits)

text \<open>
  C8, as amended. The first window search has radius 200 and starts at octave
  \<open>maxOctave/2+1\<close> when the current Map has more than 5 KeyFrames (at octave 0
  otherwise); when it finds fewer than 10 matches a second one with radius 100 and no
  scale restriction is tried. When that also finds fewer than 10, the matches are cleared
  and a projection search with radius 50 is tried: the function returns false exactly
  when that search finds fewer than 10 matches or fewer than 10 remain once the
  outliers of the pose optimization are removed.
\<close>

theorem TrackPreviousFrame_fallbacks:
  fixes e :: Ext and t :: Tracking and cur :: MapT
  assumes cur: "getCurrent (mapDB t) = Some cur"
  defines "w1 \<equiv> WindowSearch e (mLastFrame t) (mCurrentFrame t) 200
                 (if 5 < KeyFramesInMap cur
                  then cdiv (int (length (mvScaleFactors (mCurrentFrame t))) - 1) 2 + 1 else 0)"
  defines "w2 \<equiv> WindowSearch e (mLastFrame t) (mCurrentFrame t) 100 0"
  defines "none \<equiv> replicate (length (mvpMapPoints (mCurrentFrame t))) None"
  defines "F0 \<equiv> (mCurrentFrame t)\<lparr>mTcw := mTcw (mLastFrame t), mvpMapPoints := none\<rparr>"
  defines "p \<equiv> SearchByProjection e (mLastFrame t) F0 50 none"
  defines "F2 \<equiv> F0\<lparr>mvpMapPoints := snd p\<rparr>"
  shows "TrackPreviousFrame_search e cur t =
           (if fst w1 \<ge> 10 then w1 else if fst w2 \<ge> 10 then w2 else (0, none))
         \<and> (fst w1 < 10 \<and> fst w2 < 10 \<longrightarrow>
              map_sum id fst (TrackPreviousFrame e t) =
                Inr (fst p \<ge> 10 \<and>
                     fst p - int (length (filter id (mvbOutlier (snd (PoseOptimization e F2))))) \<ge> 10))"
proof -
  have s: "TrackPreviousFrame_search e cur t =
           (if fst w1 \<ge> 10 then w1 else if fst w2 \<ge> 10 then w2 else (0, none))"
    by (simp add: TrackPreviousFrame_search_eq w1_def w2_def none_def Let_def)
  have "map_sum id fst (TrackPreviousFrame e t) =
                Inr (fst p \<ge> 10 \<and>
                     fst p - int (length (filter id (mvbOutlier (snd (PoseOptimization e F2))))) \<ge> 10)"
    if "fst w1 < 10" "fst w2 < 10"
  proof -
    from that s have s0: "TrackPreviousFrame_search e cur t = (0, none)" by simp
    obtain n vp where pq: "p = (n, vp)" by (cases p)
    obtain F n' where dq: "discard_outliers (snd (PoseOptimization e F2), n) = (F, n')"
      by (cases "discard_outliers (snd (PoseOptimization e F2), n)")
    have "n' = n - int (length (filter id (mvbOutlier (snd (PoseOptimization e F2)))))"
      using discard_outliers_count [of "snd (PoseOptimization e F2)" n] dq by simp
    then show ?thesis
      using cur s0 pq dq unfolding TrackPreviousFrame_def
      by (auto simp: Let_def F0_def [symmetric] p_def [symmetric] F2_def [symmetric] F2_def)
  qed
  with s show ?thesis by blast
qed

theorem TrackPreviousFrame_fallbacks_witness:
  "getCurrent (mapDB (working_on 3)) = Some (map_of_size 3)
   \<and> TrackPreviousFrame_search ext0 (map_of_size 3) (working_on 3) = (0, [])
   \<and> map_sum id fst (TrackPreviousFrame ext0 (working_on 3)) = Inr False"
  using TrackPreviousFrame_fallbacks [of "working_on 3" "map_of_size 3" ext0]
  by (simp add: ext0_def working_on_def getCurrent_def addMap_def Tracking_new_def frame0_def)

text \<open>
  C8 as stated fails: both window searches find fewer than 10 matches, the projection
  search with radius 50 finds 40, and the function returns true.
\<close>

theorem TrackPreviousFrame_counterexample:
  "fst (WindowSearch e8 (mLastFrame (working_on 6)) (mCurrentFrame (working_on 6)) 200
          (TrackPreviousFrame_minOctave (map_of_size 6) (mCurrentFrame (working_on 6)))) < 10
   \<and> fst (WindowSearch e8 (mLastFrame (working_on 6)) (mCurrentFrame (working_on 6)) 100 0) < 10
   \<and> map_sum id fst (TrackPreviousFrame e8 (working_on 6)) = Inr True"
  by (simp add: e8_def ext0_def TrackPreviousFrame_def TrackPreviousFrame_search_def
        TrackPreviousFrame_minOctave_def working_on_def getCurrent_def addMap_def Tracking_new_def
        Let_def frame0_def discard_outliers_def)

subsection \<open>No current Map\<close>

lemma GrabImage_begin_working:
  "mState t = WORKING \<Longrightarrow> \<not> mbForceRelocalisation t \<Longrightarrow>
   GrabImage_begin e msg t = t\<lparr>mCurrentFrame := newFrame e mpORBextractor msg, mLastProcessedState := WORKING\<rparr>"
  by (simp add: GrabImage_begin_def GrabImage_relocalize_def RelocalisationRequested_def Let_def)

text \<open>
  C10. When the state at the dispatch is \<open>WORKING\<close> and the database has no current Map,
  \<open>GrabImage\<close> logs the error, sets the state to \<open>NOT_INITIALIZED\<close> and returns: nothing
  else changes, no collaborator is asked, no pointer is dereferenced, and the rest of the
  function is skipped.
\<close>

theorem null_current_map_returns:
  assumes "msg_convertible msg" and "msg_channels msg = 3 \<or> msg_channels msg = 1"
    and "mState (GrabImage_begin e msg t) = WORKING"
    and "getCurrent (mapDB (GrabImage_begin e msg t)) = None"
  shows "GrabImage e msg t =
           Inr ((emit [ROS_ERROR ''CURRENT MAP IS NULL''] (GrabImage_begin e msg t))\<lparr>mState := NOT_INITIALIZED\<rparr>)"
  using assms by (simp add: GrabImage_def GrabImage_working_def bindF_def Let_def)

theorem null_current_map_returns_witness:
  "msg_convertible msg1 \<and> (msg_channels msg1 = 3 \<or> msg_channels msg1 = 1)
   \<and> mState (GrabImage_begin ext0 msg1 tNull) = WORKING
   \<and> getCurrent (mapDB (GrabImage_begin ext0 msg1 tNull)) = None
   \<and> GrabImage ext0 msg1 tNull =
       Inr (tNull\<lparr>mLastProcessedState := WORKING, mState := NOT_INITIALIZED,
                 events := [ROS_ERROR ''CURRENT MAP IS NULL'']\<rparr>)"
proof -
  have b: "GrabImage_begin ext0 msg1 tNull = tNull\<lparr>mLastProcessedState := WORKING\<rparr>"
    by (simp add: GrabImage_begin_working tNull_def Tracking_new_def ext0_def)
  have h1: "msg_convertible msg1" and h2: "msg_channels msg1 = 3 \<or> msg_channels msg1 = 1"
    by (simp_all add: msg1_def)
  have h3: "mState (GrabImage_begin ext0 msg1 tNull) = WORKING"
    unfolding b by (simp add: tNull_def)
  have h4: "getCurrent (mapDB (GrabImage_begin ext0 msg1 tNull)) = None"
    unfolding b by (simp add: tNull_def Tracking_new_def getCurrent_def)
  have "(emit [ROS_ERROR ''CURRENT MAP IS NULL''] (tNull\<lparr>mLastProcessedState := WORKING\<rparr>))
          \<lparr>mState := NOT_INITIALIZED\<rparr>
        = tNull\<lparr>mLastProcessedState := WORKING, mState := NOT_INITIALIZED,
                 events := [ROS_ERROR ''CURRENT MAP IS NULL'']\<rparr>"
    by (simp add: emit_def tNull_def Tracking_new_def)
  with null_current_map_returns [OF h1 h2 h3 h4] h1 h2 h3 h4 show ?thesis
    unfolding b by simp
qed

subsection \<open>Lost tracking\<close>

lemma getCurrent_updCurrent:
  "getCurrent db = Some cur \<Longrightarrow> getCurrent (updCurrent f db) = Some (f cur)"
  by (auto simp: getCurrent_def updCurrent_def split: option.splits if_splits)

text \<open>
  C3. When tracking has failed (\<open>bOK\<close> is false at line 292) on a current Map, with no
  Map under construction, the state becomes \<open>NOT_INITIALIZED\<close>, relocalization is forced
  and the Relocalization thread released, and \<open>setErased(true)\<close> is applied to the
  current Map exactly when it has at most 5 KeyFrames.
\<close>

theorem lost_tracking:
  assumes cur: "getCurrent (mapDB t) = Some cur" and loc: "localMap t = None"
  shows "\<exists>t'. GrabImage_state False t = Inr t'
           \<and> mState t' = NOT_INITIALIZED \<and> mbForceRelocalisation t'
           \<and> mnLastRelocFrameId t' = mnId (mCurrentFrame t)
           \<and> mapDB t' = (if KeyFramesInMap cur \<le> 5 then updCurrent (setErased True) (mapDB t) else mapDB t)
           \<and> getCurrent (mapDB t') = Some (if KeyFramesInMap cur \<le> 5 then cur\<lparr>mbErased := True\<rparr> else cur)
           \<and> events t' = events t
                @ [ROS_INFO ''ORB-SLAM - Lost tracking, forcing relocalisation and initialization.'']
                @ (if KeyFramesInMap cur \<le> 5
                   then [ROS_INFO ''ORB-SLAM - Erasing map, too few keyframes.'',
                         RequestReset LocalMapper, RequestReset LoopCloser, RequestReset MapMerger,
                         RequestStop LocalMapper, RequestStop LoopCloser, RequestStop MapMerger,
                         Release Relocalizer]
                   else [])
                @ [RequestStop LocalMapper, RequestStop LoopCloser, RequestStop MapMerger,
                   Release Relocalizer]"
  using assms getCurrent_updCurrent [OF cur, of "setErased True"]
  by (simp add: GrabImage_state_def ForceRelocalisation_def Reset_def bindF_def Let_def setErased_def)

theorem lost_tracking_witness:
  "getCurrent (mapDB (tLost 5)) = Some (map_of_size 5) \<and> localMap (tLost 5) = None
   \<and> map_sum id (\<lambda>t. (mState t, mbForceRelocalisation t, getCurrent (mapDB t))) (GrabImage_state False (tLost 5))
       = Inr (NOT_INITIALIZED, True, Some ((map_of_size 5)\<lparr>mbErased := True\<rparr>))
   \<and> getCurrent (mapDB (tLost 6)) = Some (map_of_size 6) \<and> localMap (tLost 6) = None
   \<and> map_sum id (\<lambda>t. (mState t, mbForceRelocalisation t, getCurrent (mapDB t))) (GrabImage_state False (tLost 6))
       = Inr (NOT_INITIALIZED, True, Some (map_of_size 6))"
proof -
  have c: "getCurrent (mapDB (tLost n)) = Some (map_of_size n)" for n
    by (simp add: tLost_def working_on_def getCurrent_def addMap_def)
  have l: "localMap (tLost n) = None" for n
    by (simp add: tLost_def working_on_def Tracking_new_def)
  have k: "KeyFramesInMap (map_of_size n) = n" for n
    by (simp add: KeyFramesInMap_def map_of_size_def)
  from lost_tracking [OF c l, of 5] lost_tracking [OF c l, of 6] c l show ?thesis
    by (auto simp: k)
qed

subsection \<open>Initialization\<close>

lemma upd_fields [simp]:
  "localMap (updKF a f t) = localMap t" "localMap (updMP a g t) = localMap t"
  "localMap (updLocalMap h t) = map_option h (localMap t)"
  "mState (updKF a f t) = mState t" "mState (updMP a g t) = mState t"
  "mState (updLocalMap h t) = mState t"
  "mapDB (updKF a f t) = mapDB t" "mapDB (updMP a g t) = mapDB t"
  "mapDB (updLocalMap h t) = mapDB t"
  by (simp_all add: updKF_def updMP_def updLocalMap_def)

lemma addIniPoint_fields [simp]:
  "mState (addIniPoint a b i t) = mState t" "mapDB (addIniPoint a b i t) = mapDB t"
  "(localMap (addIniPoint a b i t) = None) = (localMap t = None)"
  by (simp_all add: addIniPoint_def Let_def)

lemma fold_addIniPoint_fields [simp]:
  "mState (fold (addIniPoint a b) is t) = mState t"
  "mapDB (fold (addIniPoint a b) is t) = mapDB t"
  "(localMap (fold (addIniPoint a b) is t) = None) = (localMap t = None)"
  by (induction "is" arbitrary: t) simp_all

lemma build_fields [simp]:
  "mState (CreateInitialMap_build R tc t) = mState t"
  "mapDB (CreateInitialMap_build R tc t) = mapDB t"
  "localMap (CreateInitialMap_build R tc t) \<noteq> None"
  by (simp_all add: CreateInitialMap_build_def Let_def)

lemma GlobalBundleAdjustemnt_fields [simp]:
  "mState (GlobalBundleAdjustemnt e t) = mState t"
  "mapDB (GlobalBundleAdjustemnt e t) = mapDB t"
  "localMap (GlobalBundleAdjustemnt e t) = localMap t"
  "events (GlobalBundleAdjustemnt e t) = events t"
  by (simp_all add: GlobalBundleAdjustemnt_def split: option.splits)

lemma commit_mState [simp]: "mState (CreateInitialMap_commit e s a b t) = WORKING"
  by (simp add: CreateInitialMap_commit_def Let_def)

lemma CreateInitialMap_state:
  "\<exists>t'. CreateInitialMap e R tc t = Inr t'
        \<and> mState t' = (if initial_map_rejected e t then NOT_INITIALIZED else WORKING)"
  by (auto simp: CreateInitialMap_def Let_def Reset_def initial_map_rejected_def)

lemma Initialize_state:
  assumes st: "mState t = INITIALIZING"
  shows "\<exists>t'. Initialize e t = Inr t' \<and>
           (mState t' = NOT_INITIALIZED \<longleftrightarrow>
              length (mvKeys (mCurrentFrame t)) \<le> 100
              \<or> fst (Initialize_matches e t) < 100
              \<or> (Initialize_twoview e t \<and> initial_map_rejected e t))"
proof (cases "length (mvKeys (mCurrentFrame t)) \<le> 100")
  case True
  then show ?thesis by (simp add: Initialize_def)
next
  case False
  obtain n prev ini where m: "Initialize_matches e t = (n, prev, ini)"
    by (cases "Initialize_matches e t")
  obtain ok R tc p3d tri where i: "Initializer_Initialize e (mpInitializer t) (mCurrentFrame t) ini
      = (ok, R, tc, p3d, tri)"
    by (cases "Initializer_Initialize e (mpInitializer t) (mCurrentFrame t) ini")
  let ?t3 = "t\<lparr>mvbPrevMatched := prev, mvIniMatches := ini, mvIniP3D := p3d,
                mvIniMatches := fst (untriangulated tri (ini, n))\<rparr>"
  have r: "initial_map_rejected e ?t3 = initial_map_rejected e t"
    by (simp add: initial_map_rejected_def)
  from CreateInitialMap_state [of e R tc ?t3] obtain t' where
    c: "CreateInitialMap e R tc ?t3 = Inr t'"
       "mState t' = (if initial_map_rejected e t then NOT_INITIALIZED else WORKING)"
    unfolding r by blast
  show ?thesis
    using False m i c st m [unfolded Initialize_matches_def]
    by (auto simp: Initialize_def Initialize_twoview_def Let_def)
qed

text \<open>
  C6, as amended. In state \<open>NOT_INITIALIZED\<close> the state becomes \<open>INITIALIZING\<close> exactly when
  the current frame has more than 100 keypoints, and the frame is then stored as the
  reference frame; a frame with at most 100 keypoints, so one with none, changes nothing.
  In state \<open>INITIALIZING\<close> the state falls back to \<open>NOT_INITIALIZED\<close> exactly when the
  current frame has at most 100 keypoints, or the matcher finds fewer than 100
  correspondences, or the two-view initializer succeeds and the initial Map is rejected.
\<close>

theorem initialization_gate:
  "(mState t = NOT_INITIALIZED \<longrightarrow>
      (mState (FirstInitialization t) = INITIALIZING \<longleftrightarrow> 100 < length (mvKeys (mCurrentFrame t)))
      \<and> (100 < length (mvKeys (mCurrentFrame t)) \<longrightarrow> mInitialFrame (FirstInitialization t) = mCurrentFrame t)
      \<and> (length (mvKeys (mCurrentFrame t)) \<le> 100 \<longrightarrow> FirstInitialization t = t))
   \<and> (mState t = INITIALIZING \<longrightarrow>
        (\<exists>t'. Initialize e t = Inr t' \<and>
           (mState t' = NOT_INITIALIZED \<longleftrightarrow>
              length (mvKeys (mCurrentFrame t)) \<le> 100
              \<or> fst (Initialize_matches e t) < 100
              \<or> (Initialize_twoview e t \<and> initial_map_rejected e t))))"
  using Initialize_state [of t e] by (simp add: FirstInitialization_def)

theorem initialization_gate_witness:
  "mState (tIni NOT_INITIALIZED 101) = NOT_INITIALIZED
   \<and> mState (FirstInitialization (tIni NOT_INITIALIZED 101)) = INITIALIZING
   \<and> mInitialFrame (FirstInitialization (tIni NOT_INITIALIZED 101)) = frame_with 101
   \<and> mState (tIni NOT_INITIALIZED 0) = NOT_INITIALIZED
   \<and> FirstInitialization (tIni NOT_INITIALIZED 0) = tIni NOT_INITIALIZED 0
   \<and> mState (tIni INITIALIZING 100) = INITIALIZING
   \<and> map_sum id mState (Initialize ext0 (tIni INITIALIZING 100)) = Inr NOT_INITIALIZED
   \<and> mState (tIni INITIALIZING 101) = INITIALIZING
   \<and> map_sum id (\<lambda>t. mState t = NOT_INITIALIZED) (Initialize (eIni 2 100) (tIni INITIALIZING 101)) = Inr False"
proof -
  have k: "length (mvKeys (frame_with n)) = n" "mState (tIni st n) = st"
    "mCurrentFrame (tIni st n) = frame_with n" for st n
    by (simp_all add: tIni_def frame_with_def)
  have m: "\<not> fst (Initialize_matches (eIni 2 100) t) < 100"
    "\<not> initial_map_rejected (eIni 2 100) t" for t
    by (simp_all add: Initialize_matches_def initial_map_rejected_def eIni_def ext0_def cfloat_simps)
  have 1: "mState (FirstInitialization (tIni NOT_INITIALIZED 101)) = INITIALIZING
           \<and> mInitialFrame (FirstInitialization (tIni NOT_INITIALIZED 101)) = frame_with 101"
    using initialization_gate [of "tIni NOT_INITIALIZED 101" ext0] by (simp add: k)
  have 2: "FirstInitialization (tIni NOT_INITIALIZED 0) = tIni NOT_INITIALIZED 0"
    using initialization_gate [of "tIni NOT_INITIALIZED 0" ext0] by (simp add: k)
  have "\<exists>t'. Initialize ext0 (tIni INITIALIZING 100) = Inr t' \<and> mState t' = NOT_INITIALIZED"
    using initialization_gate [of "tIni INITIALIZING 100" ext0] by (simp add: k)
  then have 3: "map_sum id mState (Initialize ext0 (tIni INITIALIZING 100)) = Inr NOT_INITIALIZED"
    by auto
  have "\<exists>t'. Initialize (eIni 2 100) (tIni INITIALIZING 101) = Inr t' \<and> mState t' \<noteq> NOT_INITIALIZED"
    using initialization_gate [of "tIni INITIALIZING 101" "eIni 2 100"] by (simp add: k m)
  then have 4: "map_sum id (\<lambda>t. mState t = NOT_INITIALIZED)
                  (Initialize (eIni 2 100) (tIni INITIALIZING 101)) = Inr False"
    by auto
  from 1 2 3 4 show ?thesis by (simp add: k)
qed

text \<open>
  C6 as stated fails: the frame has 101 keypoints and the matcher finds 100
  correspondences, the two-view initializer succeeds, the median scene depth is negative,
  and the state falls back to \<open>NOT_INITIALIZED\<close>.
\<close>

theorem initialization_gate_counterexample:
  "mState (tIni INITIALIZING 101) = INITIALIZING
   \<and> \<not> length (mvKeys (mCurrentFrame (tIni INITIALIZING 101))) \<le> 100
   \<and> \<not> fst (Initialize_matches (eIni (- 1) 100) (tIni INITIALIZING 101)) < 100
   \<and> map_sum id mState (Initialize (eIni (- 1) 100) (tIni INITIALIZING 101)) = Inr NOT_INITIALIZED"
proof -
  have k: "length (mvKeys (frame_with n)) = n" "mState (tIni st n) = st"
    "mCurrentFrame (tIni st n) = frame_with n" for st n
    by (simp_all add: tIni_def frame_with_def)
  have m: "\<not> fst (Initialize_matches (eIni (- 1) 100) t) < 100"
    "Initialize_twoview (eIni (- 1) 100) t" "initial_map_rejected (eIni (- 1) 100) t" for t
    by (simp_all add: Initialize_matches_def Initialize_twoview_def initial_map_rejected_def
          eIni_def ext0_def cfloat_simps)
  have "\<exists>t'. Initialize (eIni (- 1) 100) (tIni INITIALIZING 101) = Inr t' \<and> mState t' = NOT_INITIALIZED"
    using Initialize_state [of "tIni INITIALIZING 101" "eIni (- 1) 100"] by (simp add: k m)
  then have "map_sum id mState (Initialize (eIni (- 1) 100) (tIni INITIALIZING 101)) = Inr NOT_INITIALIZED"
    by auto
  then show ?thesis by (simp add: k m)
qed

subsection \<open>Motion model\<close>

lemma eye3: "eye 3 = [[1,0,0],[0,1,0],[0,0,1]]"
  by (simp add: eye_def upt_rec)
lemma eye4: "eye 4 = [[1,0,0,0],[0,1,0,0],[0,0,1,0],[0,0,0,1]]"
  by (simp add: eye_def upt_rec)

lemma len4: "length r = 4 \<Longrightarrow> \<exists>a b c d. r = [a,b,c,d]"
  by (auto simp: length_Suc_conv eval_nat_numeral)

lemma is_finite_iff: "is_finite x \<longleftrightarrow> (\<exists>a. x = Fin a)"
  by (cases x) simp_all

lemma len4_finite:
  "length r = 4 \<Longrightarrow> list_all is_finite r \<Longrightarrow> \<exists>a b c d. r = [Fin a, Fin b, Fin c, Fin d]"
  using len4 [of r] by (auto simp: is_finite_iff)

lemma LastTwc_inverse_explicit:
  assumes "mat_mul (mat_t (rot_block T)) (rot_block T) = eye 3"
    and "T = [[Fin a, Fin b, Fin c, Fin d], [Fin e, Fin f, Fin g, Fin h],
              [Fin i, Fin j, Fin k, Fin l], [0, 0, 0, 1]]"
  shows "mat_mul (LastTwc T) T = eye 4"
  using assms
  by (simp add: eye3 eye4 mat_mul_def mat_t_def rot_block_def LastTwc_def trans_col_def mat_neg_def
        copy_Rt_def upt_rec Let_def cfloat_simps algebra_simps)

lemma LastTwc_inverse: "is_rigid T \<Longrightarrow> mat_mul (LastTwc T) T = eye 4"
proof -
  assume r: "is_rigid T"
  then obtain r0 r1 r2 r3 where T: "T = [r0, r1, r2, r3]"
    using len4 [of T] by (auto simp: is_rigid_def)
  with r have l: "length r0 = 4" "length r1 = 4" "length r2 = 4"
    and f: "list_all is_finite r0" "list_all is_finite r1" "list_all is_finite r2"
    and r3: "r3 = [0,0,0,1]"
    by (auto simp: is_rigid_def)
  from l f obtain a b c d e f g h i j k l where
    "r0 = [Fin a, Fin b, Fin c, Fin d]" "r1 = [Fin e, Fin f, Fin g, Fin h]"
    "r2 = [Fin i, Fin j, Fin k, Fin l]"
    using len4_finite [of r0] len4_finite [of r1] len4_finite [of r2] by auto
  with T r3 have "T = [[Fin a, Fin b, Fin c, Fin d], [Fin e, Fin f, Fin g, Fin h],
              [Fin i, Fin j, Fin k, Fin l], [0, 0, 0, 1]]" by simp
  with r show ?thesis by (intro LastTwc_inverse_explicit) (auto simp: is_rigid_def)
qed

lemma shift_x_mul: "mat_mul (shift_x a) (shift_x b) = shift_x (a + b)"
  by (simp add: shift_x_def mat_mul_def mat_t_def upt_rec cfloat_simps)

lemma shift_x_LastTwc: "LastTwc (shift_x a) = shift_x (- a)"
  by (simp add: shift_x_def eye4 mat_mul_def mat_t_def rot_block_def LastTwc_def trans_col_def mat_neg_def
        copy_Rt_def upt_rec Let_def cfloat_simps)

lemma shift_x_rigid: "is_rigid (shift_x a)"
  by (simp add: shift_x_def is_rigid_def eye3 mat_mul_def mat_t_def rot_block_def upt_rec cfloat_simps)

lemma shift_x_0: "shift_x 0 = eye 4"
  by (simp add: shift_x_def eye4 cfloat_simps)


lemma discard_matched_outliers_prefix:
  "k \<le> length (mvpMapPoints F) \<Longrightarrow>
   (case fold (\<lambda>i (F, n). if mvpMapPoints F ! i \<noteq> None \<and> mvbOutlier F ! i
                       then (F\<lparr>mvpMapPoints := (mvpMapPoints F)[i := None],
                               mvbOutlier := (mvbOutlier F)[i := False]\<rparr>, n - 1)
                       else (F, n)) [0..<k] (F, n) of
      (F', n') \<Rightarrow> length (mvpMapPoints F') = length (mvpMapPoints F)
                 \<and> (\<forall>j\<ge>k. mvpMapPoints F' ! j = mvpMapPoints F ! j \<and> mvbOutlier F' ! j = mvbOutlier F ! j)
                 \<and> n' = n - int (length (filter (\<lambda>i. mvpMapPoints F ! i \<noteq> None \<and> mvbOutlier F ! i) [0..<k])))"
proof (induction k)
  case 0
  then show ?case by simp
next
  case (Suc k)
  then show ?case by (auto split: prod.splits)
qed

lemma discard_matched_outliers_count:
  "snd (discard_matched_outliers (F, n))
     = n - int (length (filter (\<lambda>i. mvpMapPoints F ! i \<noteq> None \<and> mvbOutlier F ! i)
                          [0..<length (mvpMapPoints F)]))"
  using discard_matched_outliers_prefix [of "length (mvpMapPoints F)" F n]
  by (simp add: discard_matched_outliers_def split: prod.splits)

lemma TrackWithMotionModel_eq:
  "TrackWithMotionModel e t =
     (let F0 = (mCurrentFrame t)\<lparr>mTcw := mat_mul (mVelocity t) (mTcw (mLastFrame t)),
                                  mvpMapPoints := map (\<lambda>_. None) (mvpMapPoints (mCurrentFrame t))\<rparr>;
          s = SearchByProjectionLast e F0 (mLastFrame t) 15;
          F = snd (PoseOptimization e (snd s))
      in if fst s < 20 then (False, t\<lparr>mCurrentFrame := snd s\<rparr>)
         else (10 \<le> fst s - int (length (filter (\<lambda>i. mvpMapPoints F ! i \<noteq> None \<and> mvbOutlier F ! i)
                                              [0..<length (mvpMapPoints F)])),
               t\<lparr>mCurrentFrame := fst (discard_matched_outliers (F, fst s))\<rparr>))"
proof -
  have "(case discard_matched_outliers (F, n) of (F', n') \<Rightarrow> (10 \<le> n', t\<lparr>mCurrentFrame := F'\<rparr>))
        = (10 \<le> n - int (length (filter (\<lambda>i. mvpMapPoints F ! i \<noteq> None \<and> mvbOutlier F ! i)
                                              [0..<length (mvpMapPoints F)])),
           t\<lparr>mCurrentFrame := fst (discard_matched_outliers (F, n))\<rparr>)" for F n
    using discard_matched_outliers_count [of F n]
    by (cases "discard_matched_outliers (F, n)") simp
  then show ?thesis
    by (simp add: TrackWithMotionModel_def Let_def split: prod.splits)
qed


lemma motion_TrackPreviousFrame:
  "TrackPreviousFrame e t = Inr (b, t') \<Longrightarrow>
   mbMotionModel t' = mbMotionModel t \<and> mLastFrame t' = mLastFrame t \<and> mVelocity t' = mVelocity t"
  by (auto simp: TrackPreviousFrame_def Let_def split: option.splits prod.splits if_splits)

lemma motion_TrackWithMotionModel:
  "TrackWithMotionModel e t = (b, t') \<Longrightarrow>
   mbMotionModel t' = mbMotionModel t \<and> mLastFrame t' = mLastFrame t \<and> mVelocity t' = mVelocity t"
  by (auto simp: TrackWithMotionModel_def Let_def split: prod.splits if_splits)

lemma motion_TrackLocalMap:
  "TrackLocalMap e t = Inr (b, t') \<Longrightarrow>
   mbMotionModel t' = mbMotionModel t \<and> mLastFrame t' = mLastFrame t \<and> mVelocity t' = mVelocity t"
  by (auto simp: TrackLocalMap_def Let_def split: option.splits prod.splits if_splits)

lemma motion_GrabImage_pose:
  "GrabImage_pose e cur t = Inr (b, t') \<Longrightarrow>
   mbMotionModel t' = mbMotionModel t \<and> mLastFrame t' = mLastFrame t \<and> mVelocity t' = mVelocity t"
  by (auto simp: GrabImage_pose_def Let_def split: prod.splits if_splits
           dest!: motion_TrackPreviousFrame motion_TrackWithMotionModel)

lemma motion_NeedNewKeyFrame:
  "NeedNewKeyFrame e t = Inr (b, t') \<Longrightarrow>
   mbMotionModel t' = mbMotionModel t \<and> mLastFrame t' = mLastFrame t \<and> mVelocity t' = mVelocity t"
  by (auto simp: NeedNewKeyFrame_def Let_def bindF_def split: option.splits sum.splits if_splits)

lemma motion_GrabImage_keyframe:
  "GrabImage_keyframe e t = Inr t' \<Longrightarrow>
   mbMotionModel t' = mbMotionModel t \<and> mLastFrame t' = mLastFrame t \<and> mVelocity t' = mVelocity t"
  by (auto simp: GrabImage_keyframe_def Let_def bindF_def CreateNewKeyFrame_def
           split: sum.splits prod.splits if_splits dest!: motion_NeedNewKeyFrame)

lemma motion_GrabImage_state:
  "GrabImage_state bOK t = Inr t' \<Longrightarrow>
   mbMotionModel t' = mbMotionModel t \<and> mLastFrame t' = mLastFrame t \<and> mVelocity t' = mVelocity t
   \<and> mCurrentFrame t' = mCurrentFrame t \<and> (mState t' = WORKING \<longleftrightarrow> bOK)"
  by (auto simp: GrabImage_state_def Let_def bindF_def Reset_def ForceRelocalisation_def
           split: option.splits sum.splits if_splits)

lemma GrabImage_working_velocity:
  assumes "getCurrent (mapDB t) = Some cur" and "GrabImage_working e t = Inr (r, t')"
  shows "\<not> r \<and> mVelocity t' =
           (if mbMotionModel t
            then if mState t' = WORKING \<and> \<not> Mat_empty (mTcw (mLastFrame t))
                 then mat_mul (mTcw (mCurrentFrame t')) (LastTwc (mTcw (mLastFrame t))) else []
            else mVelocity t)"
proof -
  from assms obtain b1 t1 b2 t2 t3 t4 where
    s: "GrabImage_pose e cur t = Inr (b1, t1)"
       "(if b1 then TrackLocalMap e t1 else Inr (b1, t1)) = Inr (b2, t2)"
       "(if b2 then GrabImage_keyframe e t2 else Inr t2) = Inr t3"
       "GrabImage_state b2 t3 = Inr t4" "t' = GrabImage_velocity b2 t4" "\<not> r"
    by (auto simp: GrabImage_working_def bindF_def split: sum.splits prod.splits)
  from s(1) have 1: "mbMotionModel t1 = mbMotionModel t \<and> mLastFrame t1 = mLastFrame t \<and> mVelocity t1 = mVelocity t"
    by (rule motion_GrabImage_pose)
  from s(2) have 2: "mbMotionModel t2 = mbMotionModel t1 \<and> mLastFrame t2 = mLastFrame t1 \<and> mVelocity t2 = mVelocity t1"
    by (auto split: if_splits dest: motion_TrackLocalMap)
  from s(3) have 3: "mbMotionModel t3 = mbMotionModel t2 \<and> mLastFrame t3 = mLastFrame t2 \<and> mVelocity t3 = mVelocity t2"
    by (auto split: if_splits dest: motion_GrabImage_keyframe)
  from s(4) have 4: "mbMotionModel t4 = mbMotionModel t3 \<and> mLastFrame t4 = mLastFrame t3 \<and> mVelocity t4 = mVelocity t3
      \<and> mCurrentFrame t4 = mCurrentFrame t3 \<and> (mState t4 = WORKING \<longleftrightarrow> b2)"
    by (rule motion_GrabImage_state)
  from 1 2 3 4 have m: "mbMotionModel t4 = mbMotionModel t" "mLastFrame t4 = mLastFrame t"
    "mVelocity t4 = mVelocity t" "mState t4 = WORKING \<longleftrightarrow> b2"
    by simp_all
  show ?thesis
    unfolding s(5) using s(6) m by (simp add: GrabImage_velocity_def)
qed

lemma TrackPreviousFrame_returns:
  "getCurrent (mapDB t) = Some cur \<Longrightarrow>
   \<exists>b t'. TrackPreviousFrame e t = Inr (b, t') \<and> mapDB t' = mapDB t"
  by (auto simp: TrackPreviousFrame_def Let_def split: prod.splits)

lemma GrabImage_pose_returns:
  assumes "getCurrent (mapDB t) = Some cur"
  shows "\<exists>b t'. GrabImage_pose e cur t = Inr (b, t') \<and> mapDB t' = mapDB t"
proof -
  obtain b1 t1 where m: "TrackWithMotionModel e t = (b1, t1)" by (cases "TrackWithMotionModel e t")
  then have d: "mapDB t1 = mapDB t"
    by (auto simp: TrackWithMotionModel_def Let_def split: prod.splits if_splits)
  with assms have "getCurrent (mapDB t1) = Some cur" by simp
  from TrackPreviousFrame_returns [OF this, of e] TrackPreviousFrame_returns [OF assms, of e] m d
  show ?thesis by (auto simp: GrabImage_pose_def)
qed

lemma TrackLocalMap_returns:
  "getCurrent (mapDB t) = Some cur \<Longrightarrow>
   \<exists>b t'. TrackLocalMap e t = Inr (b, t') \<and> getCurrent (mapDB t') \<noteq> None"
  by (auto simp: TrackLocalMap_def Let_def getCurrent_updCurrent split: prod.splits)

lemma GrabImage_state_returns:
  "bOK \<or> getCurrent (mapDB t) \<noteq> None \<Longrightarrow> \<exists>t'. GrabImage_state bOK t = Inr t'"
  by (auto simp: GrabImage_state_def Let_def bindF_def Reset_def ForceRelocalisation_def
           split: option.splits)

lemma NeedNewKeyFrame_fault:
  "getCurrent (mapDB t) \<noteq> None \<Longrightarrow> NeedNewKeyFrame e t = Inl f \<Longrightarrow>
   f = NullPointer \<and> mpReferenceKF t = None"
  by (auto simp: NeedNewKeyFrame_def Let_def bindF_def split: option.splits if_splits)

lemma GrabImage_keyframe_returns:
  assumes "getCurrent (mapDB t) \<noteq> None"
  shows "(\<exists>t'. GrabImage_keyframe e t = Inr t')
         \<or> (GrabImage_keyframe e t = Inl NullPointer \<and> mpReferenceKF t = None)"
proof (cases "NeedNewKeyFrame e (emit [SetCurrentCameraPose (mTcw (mCurrentFrame t))] t)")
  case (Inl f)
  from assms have "getCurrent (mapDB (emit [SetCurrentCameraPose (mTcw (mCurrentFrame t))] t)) \<noteq> None"
    by simp
  from NeedNewKeyFrame_fault [OF this Inl] Inl show ?thesis
    by (simp add: GrabImage_keyframe_def bindF_def)
next
  case (Inr r)
  then show ?thesis by (cases r) (simp add: GrabImage_keyframe_def bindF_def Let_def)
qed

lemma GrabImage_working_returns:
  assumes cur: "getCurrent (mapDB t) = Some cur"
  shows "(\<exists>t'. GrabImage_working e t = Inr (False, t'))
         \<or> (GrabImage_working e t = Inl NullPointer
             \<and> (\<exists>t1 t2. GrabImage_pose e cur t = Inr (True, t1) \<and> TrackLocalMap e t1 = Inr (True, t2)
                    \<and> mpReferenceKF t2 = None))"
proof -
  from GrabImage_pose_returns [OF cur, of e] obtain b1 t1 where
    p: "GrabImage_pose e cur t = Inr (b1, t1)" "mapDB t1 = mapDB t" by blast
  from p(2) cur have c1: "getCurrent (mapDB t1) = Some cur" by simp
  show ?thesis
  proof (cases b1)
    case False
    from GrabImage_state_returns [of False t1] c1 obtain t4 where "GrabImage_state False t1 = Inr t4"
      by auto
    with p False cur show ?thesis by (simp add: GrabImage_working_def bindF_def)
  next
    case True
    from TrackLocalMap_returns [OF c1, of e] obtain b2 t2 where
      l: "TrackLocalMap e t1 = Inr (b2, t2)" "getCurrent (mapDB t2) \<noteq> None" by blast
    show ?thesis
    proof (cases b2)
      case False
      from GrabImage_state_returns [of False t2] l(2) obtain t4 where "GrabImage_state False t2 = Inr t4"
        by auto
      with p True l False cur show ?thesis by (simp add: GrabImage_working_def bindF_def)
    next
      case b2: True
      from GrabImage_keyframe_returns [OF l(2), of e] show ?thesis
      proof
        assume "\<exists>t'. GrabImage_keyframe e t2 = Inr t'"
        then obtain t3 where k: "GrabImage_keyframe e t2 = Inr t3" by blast
        from GrabImage_state_returns [of True t3] obtain t4 where "GrabImage_state True t3 = Inr t4"
          by auto
        with p True l b2 k cur show ?thesis by (simp add: GrabImage_working_def bindF_def)
      next
        assume "GrabImage_keyframe e t2 = Inl NullPointer \<and> mpReferenceKF t2 = None"
        with p True l b2 cur show ?thesis by (simp add: GrabImage_working_def bindF_def)
      qed
    qed
  qed
qed

lemma GrabImage_end_velocity:
  "GrabImage_end e t = Inr t' \<Longrightarrow> mVelocity t' = mVelocity t"
  by (auto simp: GrabImage_end_def bindF_def RelocalisationInline_def Let_def PublishTopics_def
           ResetRelocalisationRequested_def
           split: sum.splits prod.splits if_splits)

lemma GrabImage_dispatch_working:
  "msg_convertible msg \<Longrightarrow> msg_channels msg = 3 \<or> msg_channels msg = 1 \<Longrightarrow>
   mState (GrabImage_begin e msg t) = WORKING \<Longrightarrow>
   GrabImage e msg t =
     bindF (GrabImage_working e (GrabImage_begin e msg t))
       (\<lambda>(returned, t2). if returned then Inr t2 else GrabImage_end e t2)"
  by (simp add: GrabImage_def Let_def)


text \<open>
  C5, as amended. In state \<open>WORKING\<close> with a current Map, the pose is predicted by the
  motion model exactly when the motion model is enabled, the current Map has at least 4
  KeyFrames, the velocity is not empty and the last relocalization was at least 2 frames
  ago; otherwise, and when the motion model fails, the previous frame is tracked. The
  motion model sets the pose to \<open>V * Tcw_prev\<close>, clears the frame's associations and
  searches by projection with radius 15: it fails when the search finds fewer than 20
  matches, and otherwise succeeds exactly when at least 10 matches remain once the
  matched outliers of the pose optimization are removed. A frame tracked on a current
  Map is processed to the end of the branch, unless tracking succeeded and left no
  reference KeyFrame, which \<open>NeedNewKeyFrame\<close> dereferences. After it, with the motion
  model enabled, the velocity is \<open>Tcw * LastTwc\<close> when tracking succeeded (the state is
  \<open>WORKING\<close>) and the previous frame has a pose, and is empty otherwise, so after every
  tracking failure; with the motion model disabled the velocity is never written. A frame
  that arrives when the database has no current Map is dropped before tracking: the
  state becomes \<open>NOT_INITIALIZED\<close> and the velocity stays as it was. The rest of
  \<open>GrabImage\<close> does not write the velocity. \<open>LastTwc\<close> is the inverse of a rigid
  previous pose.
\<close>

theorem motion_model:
  fixes e :: Ext and t :: Tracking and cur :: MapT and msg :: ImageMsg and T :: Mat and bOK :: bool
  defines "F0 \<equiv> (mCurrentFrame t)\<lparr>mTcw := mat_mul (mVelocity t) (mTcw (mLastFrame t)),
                                     mvpMapPoints := map (\<lambda>_. None) (mvpMapPoints (mCurrentFrame t))\<rparr>"
  defines "s \<equiv> SearchByProjectionLast e F0 (mLastFrame t) 15"
  defines "F \<equiv> snd (PoseOptimization e (snd s))"
  shows "GrabImage_pose e cur t =
     (if mbMotionModel t \<and> 4 \<le> KeyFramesInMap cur \<and> \<not> Mat_empty (mVelocity t)
         \<and> mnLastRelocFrameId t + 2 \<le> mnId (mCurrentFrame t)
      then (case TrackWithMotionModel e t of
              (bOK, t1) \<Rightarrow> if bOK then Inr (True, t1) else TrackPreviousFrame e t1)
      else TrackPreviousFrame e t)
   \<and> TrackWithMotionModel e t =
       (if fst s < 20 then (False, t\<lparr>mCurrentFrame := snd s\<rparr>)
        else (10 \<le> fst s - int (length (filter (\<lambda>i. mvpMapPoints F ! i \<noteq> None \<and> mvbOutlier F ! i)
                                             [0..<length (mvpMapPoints F)])),
              t\<lparr>mCurrentFrame := fst (discard_matched_outliers (F, fst s))\<rparr>))
   \<and> (mbMotionModel t \<longrightarrow>
        mVelocity (GrabImage_velocity bOK t) =
          (if bOK \<and> \<not> Mat_empty (mTcw (mLastFrame t))
           then mat_mul (mTcw (mCurrentFrame t)) (LastTwc (mTcw (mLastFrame t))) else []))
   \<and> (\<not> mbMotionModel t \<longrightarrow> GrabImage_velocity bOK t = t)
   \<and> (getCurrent (mapDB t) = Some cur \<longrightarrow>
        (\<exists>t'. GrabImage_working e t = Inr (False, t') \<and> mVelocity t' =
             (if mbMotionModel t
              then if mState t' = WORKING \<and> \<not> Mat_empty (mTcw (mLastFrame t))
                   then mat_mul (mTcw (mCurrentFrame t')) (LastTwc (mTcw (mLastFrame t))) else []
              else mVelocity t))
        \<or> (GrabImage_working e t = Inl NullPointer
            \<and> (\<exists>t1 t2. GrabImage_pose e cur t = Inr (True, t1) \<and> TrackLocalMap e t1 = Inr (True, t2)
                   \<and> mpReferenceKF t2 = None)))
   \<and> (getCurrent (mapDB t) = None \<longrightarrow>
        GrabImage_working e t =
          Inr (True, (emit [ROS_ERROR ''CURRENT MAP IS NULL''] t)\<lparr>mState := NOT_INITIALIZED\<rparr>))
   \<and> (\<forall>t'. GrabImage_end e t = Inr t' \<longrightarrow> mVelocity t' = mVelocity t)
   \<and> (msg_convertible msg \<and> (msg_channels msg = 3 \<or> msg_channels msg = 1)
        \<and> mState (GrabImage_begin e msg t) = WORKING \<longrightarrow>
        GrabImage e msg t =
          bindF (GrabImage_working e (GrabImage_begin e msg t))
            (\<lambda>(returned, t2). if returned then Inr t2 else GrabImage_end e t2))
   \<and> (is_rigid T \<longrightarrow> mat_mul (LastTwc T) T = eye 4)"
proof -
  have 1: "GrabImage_pose e cur t =
     (if mbMotionModel t \<and> 4 \<le> KeyFramesInMap cur \<and> \<not> Mat_empty (mVelocity t)
         \<and> mnLastRelocFrameId t + 2 \<le> mnId (mCurrentFrame t)
      then (case TrackWithMotionModel e t of
              (bOK, t1) \<Rightarrow> if bOK then Inr (True, t1) else TrackPreviousFrame e t1)
      else TrackPreviousFrame e t)"
    by (auto simp: GrabImage_pose_def not_less not_le split: prod.splits)
  have 2: "TrackWithMotionModel e t =
       (if fst s < 20 then (False, t\<lparr>mCurrentFrame := snd s\<rparr>)
        else (10 \<le> fst s - int (length (filter (\<lambda>i. mvpMapPoints F ! i \<noteq> None \<and> mvbOutlier F ! i)
                                             [0..<length (mvpMapPoints F)])),
              t\<lparr>mCurrentFrame := fst (discard_matched_outliers (F, fst s))\<rparr>))"
    unfolding F_def s_def F0_def by (simp add: TrackWithMotionModel_eq Let_def)
  have 3: "mbMotionModel t \<longrightarrow>
        mVelocity (GrabImage_velocity bOK t) =
          (if bOK \<and> \<not> Mat_empty (mTcw (mLastFrame t))
           then mat_mul (mTcw (mCurrentFrame t)) (LastTwc (mTcw (mLastFrame t))) else [])"
    "\<not> mbMotionModel t \<longrightarrow> GrabImage_velocity bOK t = t"
    by (simp_all add: GrabImage_velocity_def)
  have 4: "getCurrent (mapDB t) = Some cur \<longrightarrow>
        (\<exists>t'. GrabImage_working e t = Inr (False, t') \<and> mVelocity t' =
             (if mbMotionModel t
              then if mState t' = WORKING \<and> \<not> Mat_empty (mTcw (mLastFrame t))
                   then mat_mul (mTcw (mCurrentFrame t')) (LastTwc (mTcw (mLastFrame t))) else []
              else mVelocity t))
        \<or> (GrabImage_working e t = Inl NullPointer
            \<and> (\<exists>t1 t2. GrabImage_pose e cur t = Inr (True, t1) \<and> TrackLocalMap e t1 = Inr (True, t2)
                   \<and> mpReferenceKF t2 = None))"
    using GrabImage_working_returns [of t cur e] GrabImage_working_velocity [of t cur e] by blast
  have 5: "getCurrent (mapDB t) = None \<longrightarrow>
        GrabImage_working e t =
          Inr (True, (emit [ROS_ERROR ''CURRENT MAP IS NULL''] t)\<lparr>mState := NOT_INITIALIZED\<rparr>)"
    by (simp add: GrabImage_working_def)
  have 6: "\<forall>t'. GrabImage_end e t = Inr t' \<longrightarrow> mVelocity t' = mVelocity t"
    using GrabImage_end_velocity [of e t] by blast
  have 7: "msg_convertible msg \<and> (msg_channels msg = 3 \<or> msg_channels msg = 1)
        \<and> mState (GrabImage_begin e msg t) = WORKING \<longrightarrow>
        GrabImage e msg t =
          bindF (GrabImage_working e (GrabImage_begin e msg t))
            (\<lambda>(returned, t2). if returned then Inr t2 else GrabImage_end e t2)"
    using GrabImage_dispatch_working [of msg e t] by blast
  from 1 2 3 4 5 6 7 LastTwc_inverse [of T] show ?thesis by blast
qed


text \<open>
  C5 as stated fails. With the motion model disabled and tracking successful, the
  velocity stays empty instead of becoming \<open>Tcw * Tcw_prev\<^sup>-\<^sup>1\<close>, which is the identity
  here. With the motion model enabled, a frame received in state \<open>WORKING\<close> when the
  database has no current Map ends tracking (the state becomes \<open>NOT_INITIALIZED\<close>) and
  the velocity is not cleared.
\<close>

theorem motion_model_counterexample:
  "\<not> mbMotionModel tNoMM
   \<and> mVelocity (GrabImage_velocity True tNoMM) = []
   \<and> mat_mul (mTcw (mCurrentFrame tNoMM)) (LastTwc (mTcw (mLastFrame tNoMM))) = eye 4
   \<and> eye 4 \<noteq> []
   \<and> mbMotionModel tNull \<and> mState tNull = WORKING
   \<and> map_sum id (\<lambda>t. (mState t, mVelocity t)) (GrabImage ext0 msg1 tNull) = Inr (NOT_INITIALIZED, eye 4)"
proof -
  have a: "\<not> mbMotionModel tNoMM" "mVelocity (GrabImage_velocity True tNoMM) = []"
    by (simp_all add: tNoMM_def Tracking_new_def GrabImage_velocity_def)
  have p: "mTcw (mCurrentFrame tNoMM) = eye 4" "mTcw (mLastFrame tNoMM) = eye 4"
    by (simp_all add: tNoMM_def)
  have b: "mat_mul (mTcw (mCurrentFrame tNoMM)) (LastTwc (mTcw (mLastFrame tNoMM))) = eye 4"
    unfolding p shift_x_0 [symmetric] by (simp add: shift_x_LastTwc shift_x_mul)
  have c: "eye 4 \<noteq> ([] :: Mat)" by (simp add: eye4)
  have d: "mbMotionModel tNull" "mState tNull = WORKING" "mVelocity tNull = eye 4"
    by (simp_all add: tNull_def Tracking_new_def)
  have g: "GrabImage_begin ext0 msg1 tNull = tNull\<lparr>mLastProcessedState := WORKING\<rparr>"
    by (simp add: GrabImage_begin_working tNull_def Tracking_new_def ext0_def)
  have h: "msg_convertible msg1" "msg_channels msg1 = 3 \<or> msg_channels msg1 = 1"
    by (simp_all add: msg1_def)
  have h3: "mState (GrabImage_begin ext0 msg1 tNull) = WORKING"
    unfolding g by (simp add: tNull_def)
  have n: "getCurrent (mapDB tNull) = None"
    by (simp add: tNull_def Tracking_new_def getCurrent_def)
  from GrabImage_dispatch_working [OF h h3]
  have "GrabImage ext0 msg1 tNull
             = Inr ((emit [ROS_ERROR ''CURRENT MAP IS NULL''] (tNull\<lparr>mLastProcessedState := WORKING\<rparr>))
                      \<lparr>mState := NOT_INITIALIZED\<rparr>)"
    unfolding g by (simp add: GrabImage_working_def n bindF_def)
  then have e: "map_sum id (\<lambda>t. (mState t, mVelocity t)) (GrabImage ext0 msg1 tNull) = Inr (NOT_INITIALIZED, eye 4)"
    using d(3) by simp
  from a b c d e show ?thesis by simp
qed

theorem motion_model_witness:
  "getCurrent (mapDB tMM) = Some (map_of_size 4)
   \<and> TrackWithMotionModel eMM tMM = (True, tMM\<lparr>mCurrentFrame := frame0\<lparr>mnId := 3, mTcw := shift_x 5\<rparr>\<rparr>)
   \<and> map_sum id (\<lambda>(r, t). (r, mState t, mTcw (mCurrentFrame t), mVelocity t)) (GrabImage_working eMM tMM)
       = Inr (False, WORKING, shift_x 5, shift_x 2)
   \<and> fst (TrackWithMotionModel ext0 tMM) = False
   \<and> map_sum id (\<lambda>(r, t). (r, mState t, mVelocity t)) (GrabImage_working ext0 tMM)
       = Inr (False, NOT_INITIALIZED, [])
   \<and> getCurrent (mapDB tNull) = None
   \<and> map_sum id (\<lambda>(r, t). (r, mState t, mVelocity t)) (GrabImage_working ext0 tNull)
       = Inr (True, NOT_INITIALIZED, eye 4)
   \<and> GrabImage_velocity True tNoMM = tNoMM
   \<and> is_rigid (shift_x 3) \<and> mat_mul (LastTwc (shift_x 3)) (shift_x 3) = eye 4"
proof -
  note th = motion_model [of eMM "map_of_size 4" tMM True msg1 "shift_x 3"]
  note th0 = motion_model [of ext0 "map_of_size 4" tMM True msg1 "shift_x 3"]
  note thN = motion_model [of ext0 "map_of_size 4" tNull True msg1 "shift_x 3"]
  note thD = motion_model [of ext0 "map_of_size 4" tNoMM True msg1 "shift_x 3"]
  have c: "getCurrent (mapDB tMM) = Some (map_of_size 4)"
    by (simp add: tMM_def working_on_def getCurrent_def addMap_def)
  have f: "mbMotionModel tMM" "mVelocity tMM = shift_x 2" "mTcw (mLastFrame tMM) = shift_x 3"
    "mCurrentFrame tMM = frame0\<lparr>mnId := 3\<rparr>" "mLastFrame tMM = frame0\<lparr>mnId := 2, mTcw := shift_x 3\<rparr>"
    by (simp_all add: tMM_def working_on_def Tracking_new_def)
  have e: "SearchByProjectionLast eMM G H 15 = (25, G)" "PoseOptimization eMM G = (60, G)"
    "SearchByProjectionLast ext0 G H 15 = (0, G)" for G H
    by (simp_all add: eMM_def ext0_def)
  have twm: "TrackWithMotionModel eMM tMM = (True, tMM\<lparr>mCurrentFrame := frame0\<lparr>mnId := 3, mTcw := shift_x 5\<rparr>\<rparr>)"
    using th by (simp add: f e shift_x_mul frame0_def discard_matched_outliers_def)
  have twm0: "TrackWithMotionModel ext0 tMM
              = (False, tMM\<lparr>mCurrentFrame := frame0\<lparr>mnId := 3, mTcw := shift_x 5\<rparr>\<rparr>)"
    using th0 by (simp add: f e shift_x_mul frame0_def)
  have pose: "GrabImage_pose eMM (map_of_size 4) tMM
              = Inr (True, tMM\<lparr>mCurrentFrame := frame0\<lparr>mnId := 3, mTcw := shift_x 5\<rparr>\<rparr>)"
    using th unfolding twm
    by (simp add: f KeyFramesInMap_def map_of_size_def Mat_empty_def shift_x_def
          working_on_def Tracking_new_def tMM_def)
  have gw: "map_sum id (\<lambda>(r, t). (r, mState t, mTcw (mCurrentFrame t), mLastFrame t)) (GrabImage_working eMM tMM)
            = Inr (False, WORKING, shift_x 5, frame0\<lparr>mnId := 2, mTcw := shift_x 3\<rparr>)"
    unfolding GrabImage_working_def c option.case pose
    by (simp add: bindF_def TrackLocalMap_def getCurrent_def updCurrent_def tMM_def working_on_def
          addMap_def Tracking_new_def eMM_def ext0_def Let_def frame0_def GrabImage_keyframe_def
          NeedNewKeyFrame_def map_of_size_def getNewMap_def KeyFramesInMap_def drop_outlier_points_def
          GrabImage_state_def GrabImage_velocity_def)
  from gw obtain r t' where w: "GrabImage_working eMM tMM = Inr (r, t')" "\<not> r" "mState t' = WORKING"
    "mTcw (mCurrentFrame t') = shift_x 5"
    by (cases "GrabImage_working eMM tMM") auto
  have ne: "\<not> Mat_empty (shift_x 3)" by (simp add: Mat_empty_def shift_x_def)
  from th c w(1) have "mVelocity t' =
             (if mbMotionModel tMM
              then if mState t' = WORKING \<and> \<not> Mat_empty (mTcw (mLastFrame tMM))
                   then mat_mul (mTcw (mCurrentFrame t')) (LastTwc (mTcw (mLastFrame tMM))) else []
              else mVelocity tMM)"
    by auto
  then have v: "mVelocity t' = shift_x 2"
    by (simp add: f w ne shift_x_LastTwc shift_x_mul)
  have 3: "map_sum id (\<lambda>(r, t). (r, mState t, mTcw (mCurrentFrame t), mVelocity t)) (GrabImage_working eMM tMM)
       = Inr (False, WORKING, shift_x 5, shift_x 2)"
    by (simp add: w v)
  have tp: "TrackPreviousFrame ext0 (tMM\<lparr>mCurrentFrame := frame0\<lparr>mnId := 3, mTcw := shift_x 5\<rparr>\<rparr>)
            = Inr (False, tMM\<lparr>mCurrentFrame := frame0\<lparr>mnId := 3, mTcw := shift_x 3\<rparr>\<rparr>)"
    by (simp add: TrackPreviousFrame_def TrackPreviousFrame_search_def ext0_def c f Let_def frame0_def)
  have g: "mbMotionModel tMM \<and> 4 \<le> KeyFramesInMap (map_of_size 4) \<and> \<not> Mat_empty (mVelocity tMM)
           \<and> mnLastRelocFrameId tMM + 2 \<le> mnId (mCurrentFrame tMM)"
    by (simp add: f KeyFramesInMap_def map_of_size_def Mat_empty_def shift_x_def)
       (simp add: tMM_def working_on_def Tracking_new_def)
  from th0 have "GrabImage_pose ext0 (map_of_size 4) tMM =
     (if mbMotionModel tMM \<and> 4 \<le> KeyFramesInMap (map_of_size 4) \<and> \<not> Mat_empty (mVelocity tMM)
         \<and> mnLastRelocFrameId tMM + 2 \<le> mnId (mCurrentFrame tMM)
      then (case TrackWithMotionModel ext0 tMM of
              (bOK, t1) \<Rightarrow> if bOK then Inr (True, t1) else TrackPreviousFrame ext0 t1)
      else TrackPreviousFrame ext0 tMM)"
    by blast
  then have pose0: "GrabImage_pose ext0 (map_of_size 4) tMM
               = Inr (False, tMM\<lparr>mCurrentFrame := frame0\<lparr>mnId := 3, mTcw := shift_x 3\<rparr>\<rparr>)"
    unfolding twm0 if_P [OF g] by (simp add: tp)
  have gw0: "map_sum id (\<lambda>(r, t). (r, mState t)) (GrabImage_working ext0 tMM) = Inr (False, NOT_INITIALIZED)"
    unfolding GrabImage_working_def c option.case pose0
    by (simp add: bindF_def GrabImage_state_def ForceRelocalisation_def KeyFramesInMap_def
          map_of_size_def Reset_def tMM_def working_on_def Tracking_new_def Let_def
          getCurrent_def addMap_def getNewMap_def GrabImage_velocity_def)
  from gw0 obtain r0 t0 where w0: "GrabImage_working ext0 tMM = Inr (r0, t0)" "\<not> r0"
    "mState t0 = NOT_INITIALIZED"
    by (cases "GrabImage_working ext0 tMM") auto
  from th0 c w0(1) have "mVelocity t0 =
             (if mbMotionModel tMM
              then if mState t0 = WORKING \<and> \<not> Mat_empty (mTcw (mLastFrame tMM))
                   then mat_mul (mTcw (mCurrentFrame t0)) (LastTwc (mTcw (mLastFrame tMM))) else []
              else mVelocity tMM)"
    by auto
  then have v0: "mVelocity t0 = []" by (simp add: f w0)
  have 5: "map_sum id (\<lambda>(r, t). (r, mState t, mVelocity t)) (GrabImage_working ext0 tMM)
       = Inr (False, NOT_INITIALIZED, [])"
    by (simp add: w0 v0)
  have n: "getCurrent (mapDB tNull) = None"
    by (simp add: tNull_def Tracking_new_def getCurrent_def)
  from thN n have "GrabImage_working ext0 tNull =
          Inr (True, (emit [ROS_ERROR ''CURRENT MAP IS NULL''] tNull)\<lparr>mState := NOT_INITIALIZED\<rparr>)"
    by blast
  then have 7: "map_sum id (\<lambda>(r, t). (r, mState t, mVelocity t)) (GrabImage_working ext0 tNull)
       = Inr (True, NOT_INITIALIZED, eye 4)"
    by (simp add: tNull_def Tracking_new_def)
  have "\<not> mbMotionModel tNoMM" by (simp add: tNoMM_def Tracking_new_def)
  with thD have 8: "GrabImage_velocity True tNoMM = tNoMM" by blast
  from th shift_x_rigid [of 3] have 9: "mat_mul (LastTwc (shift_x 3)) (shift_x 3) = eye 4" by blast
  from c twm 3 twm0 5 n 7 8 shift_x_rigid [of 3] 9 show ?thesis by simp
qed


subsection \<open>Trajectory files\<close>

text \<open>
  C9. A file is written for exactly the Maps that are not erased, in database order. The
  file of a Map has one line for each of its KeyFrames that is not bad and none for the
  others, in ascending order of KeyFrame id. A line is the timestamp with 6 decimals
  followed, with 7 decimals each, by the three coordinates of the camera centre and the
  four components of the quaternion of the transposed world-to-camera rotation.
\<close>

theorem trajectory_files:
  "map fst (save_trajectories h q db) = filter (\<lambda>i. \<not> mbErased (db_maps db ! i)) [0..<length (db_maps db)]
   \<and> map snd (save_trajectories h q db)
       = map (\<lambda>i. trajectory_file h q (db_maps db ! i))
           (filter (\<lambda>i. \<not> mbErased (db_maps db ! i)) [0..<length (db_maps db)])
   \<and> trajectory_file h q m
       = map (trajectory_line q) (sort_key kf_mnId (filter (\<lambda>k. \<not> isBad k) (GetAllKeyFrames h m)))
   \<and> sorted (map kf_mnId (sort_key kf_mnId (filter (\<lambda>k. \<not> isBad k) (GetAllKeyFrames h m))))
   \<and> mset (sort_key kf_mnId (filter (\<lambda>k. \<not> isBad k) (GetAllKeyFrames h m)))
       = filter_mset (\<lambda>k. \<not> isBad k) (mset (GetAllKeyFrames h m))
   \<and> trajectory_line q k
       = [Fixed 6 (kf_mTimeStamp k),
          Fixed 7 (GetCameraCenter k ! 0 ! 0), Fixed 7 (GetCameraCenter k ! 1 ! 0),
          Fixed 7 (GetCameraCenter k ! 2 ! 0),
          Fixed 7 (q (mat_t (GetRotation k)) ! 0), Fixed 7 (q (mat_t (GetRotation k)) ! 1),
          Fixed 7 (q (mat_t (GetRotation k)) ! 2), Fixed 7 (q (mat_t (GetRotation k)) ! 3)]"
  by (simp add: save_trajectories_def trajectory_file_def trajectory_line_def Let_def comp_def
        filter_sort)

theorem trajectory_files_witness:
  "save_trajectories heap9 quat0 db9
     = [(0, [[Fixed 6 10, Fixed 7 0, Fixed 7 0, Fixed 7 0, Fixed 7 0, Fixed 7 0, Fixed 7 0, Fixed 7 1],
             [Fixed 6 12, Fixed 7 2, Fixed 7 0, Fixed 7 0, Fixed 7 0, Fixed 7 0, Fixed 7 0, Fixed 7 1]])]"
proof -
  have g: "GetAllKeyFrames heap9 ((map_of_size 0)\<lparr>mspKeyFrames := [2, 1, 0]\<rparr>)
           = [kfA 2 12 False, kfA 1 11 True, kfA 0 10 False]"
    by (simp add: GetAllKeyFrames_def heap9_def List.map_filter_simps)
  have l: "trajectory_line quat0 (kfA a ts b)
           = [Fixed 6 ts, Fixed 7 (Fin (real a)), Fixed 7 0, Fixed 7 0, Fixed 7 0, Fixed 7 0, Fixed 7 0, Fixed 7 1]" for a ts b
    by (simp add: trajectory_line_def quat0_def kfA_def GetCameraCenter_def mat_mul_def mat_t_def
          mat_neg_def rot_block_def trans_col_def upt_rec Let_def cfloat_simps)
  have f: "filter (\<lambda>i. \<not> mbErased (db_maps db9 ! i)) [0..<length (db_maps db9)] = [0]"
    by (simp add: db9_def map_of_size_def getNewMap_def upt_rec)
  have b: "isBad (kfA a ts b) = b" "kf_mnId (kfA a ts b) = a" for a ts b
    by (simp_all add: isBad_def kfA_def)
  have m0: "db_maps db9 ! 0 = (map_of_size 0)\<lparr>mspKeyFrames := [2, 1, 0]\<rparr>"
    by (simp add: db9_def)
  from trajectory_files [of heap9 quat0 db9 "db_maps db9 ! 0"]
  have "map fst (save_trajectories heap9 quat0 db9) = [0]"
    and "map snd (save_trajectories heap9 quat0 db9)
          = [map (trajectory_line quat0)
               (sort_key kf_mnId (filter (\<lambda>k. \<not> isBad k) (GetAllKeyFrames heap9 (db_maps db9 ! 0))))]"
    unfolding f by simp_all
  then show ?thesis
    unfolding m0 g by (cases "save_trajectories heap9 quat0 db9") (auto simp: b l cfloat_simps)
qed

subsection \<open>The initial Map\<close>






lemma build_inv_emit [simp]: "build_inv ini cur ms n0 len0 k (emit es t) = build_inv ini cur ms n0 len0 k t"
  by (simp add: build_inv_def emit_def)



lemma scalePoint_fields [simp]:
  "heapKF (scalePoint s x t) = heapKF t" "localMap (scalePoint s x t) = localMap t"
  "mapDB (scalePoint s x t) = mapDB t" "mCurrentFrame (scalePoint s x t) = mCurrentFrame t"
  "nNextMP (scalePoint s x t) = nNextMP t" "mvpLocalKeyFrames (scalePoint s x t) = mvpLocalKeyFrames t"
  by (cases x; simp add: scalePoint_def updMP_def)+

lemma scalePoints_fields [simp]:
  "heapKF (scalePoints s L t) = heapKF t" "localMap (scalePoints s L t) = localMap t"
  "mapDB (scalePoints s L t) = mapDB t" "mCurrentFrame (scalePoints s L t) = mCurrentFrame t"
  "nNextMP (scalePoints s L t) = nNextMP t" "mvpLocalKeyFrames (scalePoints s L t) = mvpLocalKeyFrames t"
  unfolding scalePoints_def by (induction L arbitrary: t; simp)+




lemma heap_fields [simp]:
  "heapKF (emit es t) = heapKF t" "heapMP (emit es t) = heapMP t"
  "heapKF (updLocalMap f t) = heapKF t" "heapMP (updLocalMap f t) = heapMP t"
  "heapKF (updMP a g t) = heapKF t" "heapMP (updKF a h t) = heapMP t"
  "heapKF (ResetRelocalisationRequested t) = heapKF t"
  "heapMP (ResetRelocalisationRequested t) = heapMP t"
  "localMap (ResetRelocalisationRequested t) = localMap t"
  "mapDB (ResetRelocalisationRequested t) = mapDB t"
  "nNextMP (ResetRelocalisationRequested t) = nNextMP t"
  "nNextMP (emit es t) = nNextMP t" "nNextMP (updKF a h t) = nNextMP t"
  "nNextMP (updLocalMap f t) = nNextMP t"
  "mCurrentFrame (updLocalMap f t) = mCurrentFrame t"
  by (simp_all add: emit_def updLocalMap_def updMP_def updKF_def ResetRelocalisationRequested_def)























lemma nonfinite_add_right: "\<not> is_finite y \<Longrightarrow> \<not> is_finite (x + y)"
  by (cases x; cases y) simp_all













subsection \<open>No Map is pending between two images\<close>

text \<open>
  \<open>localMap\<close> is set only inside \<open>CreateInitialMap\<close>, which clears it on both of its
  exits, so it is \<^verbatim>\<open>NULL\<close> in every reachable state, as the property of lost tracking
  assumes.
\<close>

lemma localMap_TrackPreviousFrame:
  "TrackPreviousFrame e t = Inr (b, t') \<Longrightarrow> localMap t' = localMap t"
  by (auto simp: TrackPreviousFrame_def Let_def split: option.splits prod.splits if_splits)

lemma localMap_TrackWithMotionModel:
  "TrackWithMotionModel e t = (b, t') \<Longrightarrow> localMap t' = localMap t"
  by (auto simp: TrackWithMotionModel_def Let_def split: prod.splits if_splits)

lemma localMap_TrackLocalMap:
  "TrackLocalMap e t = Inr (b, t') \<Longrightarrow> localMap t' = localMap t"
  by (auto simp: TrackLocalMap_def Let_def split: option.splits prod.splits if_splits)

lemma localMap_GrabImage_pose:
  "GrabImage_pose e cur t = Inr (b, t') \<Longrightarrow> localMap t' = localMap t"
  by (auto simp: GrabImage_pose_def Let_def split: prod.splits if_splits
           dest!: localMap_TrackPreviousFrame localMap_TrackWithMotionModel)

lemma localMap_NeedNewKeyFrame:
  "NeedNewKeyFrame e t = Inr (b, t') \<Longrightarrow> localMap t' = localMap t"
  by (auto simp: NeedNewKeyFrame_def Let_def bindF_def split: option.splits sum.splits if_splits)

lemma localMap_GrabImage_keyframe:
  "GrabImage_keyframe e t = Inr t' \<Longrightarrow> localMap t' = localMap t"
  by (auto simp: GrabImage_keyframe_def Let_def bindF_def CreateNewKeyFrame_def
           split: sum.splits prod.splits if_splits dest!: localMap_NeedNewKeyFrame)

lemma localMap_GrabImage_state:
  "GrabImage_state bOK t = Inr t' \<Longrightarrow> localMap t = None \<Longrightarrow> localMap t' = None"
  by (auto simp: GrabImage_state_def Let_def bindF_def Reset_def ForceRelocalisation_def
           split: option.splits sum.splits if_splits)

lemma localMap_GrabImage_velocity: "localMap (GrabImage_velocity bOK t) = localMap t"
  by (simp add: GrabImage_velocity_def)

lemma localMap_GrabImage_working:
  assumes "GrabImage_working e t = Inr (r, t')" and "localMap t = None"
  shows "localMap t' = None"
proof (cases "getCurrent (mapDB t)")
  case None
  with assms show ?thesis by (auto simp: GrabImage_working_def)
next
  case (Some cur)
  from assms(1) Some obtain b1 t1 b2 t2 t3 t4 where
    s: "GrabImage_pose e cur t = Inr (b1, t1)"
       "(if b1 then TrackLocalMap e t1 else Inr (b1, t1)) = Inr (b2, t2)"
       "(if b2 then GrabImage_keyframe e t2 else Inr t2) = Inr t3"
       "GrabImage_state b2 t3 = Inr t4" "t' = GrabImage_velocity b2 t4"
    by (auto simp: GrabImage_working_def bindF_def split: sum.splits prod.splits)
  from s(1) have "localMap t1 = None" using assms(2) by (simp add: localMap_GrabImage_pose)
  with s(2) have "localMap t2 = None"
    by (auto split: if_splits dest: localMap_TrackLocalMap)
  with s(3) have "localMap t3 = None"
    by (auto split: if_splits dest: localMap_GrabImage_keyframe)
  with s(4) have "localMap t4 = None" by (rule localMap_GrabImage_state)
  with s(5) show ?thesis by (simp add: localMap_GrabImage_velocity)
qed

lemma localMap_CreateInitialMap:
  "CreateInitialMap e R tc t = Inr t' \<Longrightarrow> localMap t' = None"
  by (auto simp: CreateInitialMap_def Let_def Reset_def CreateInitialMap_commit_def
           split: if_splits)

lemma localMap_Initialize:
  "Initialize e t = Inr t' \<Longrightarrow> localMap t = None \<Longrightarrow> localMap t' = None"
  by (auto simp: Initialize_def Let_def split: prod.splits if_splits
           dest: localMap_CreateInitialMap)

lemma localMap_GrabImage_begin: "localMap (GrabImage_begin e msg t) = localMap t"
  by (simp add: GrabImage_begin_def GrabImage_relocalize_def Let_def publishersRequest_def
        SetRelocalisationFrame_def split: prod.splits)

lemma localMap_GrabImage_end:
  "GrabImage_end e t = Inr t' \<Longrightarrow> localMap t' = localMap t"
  by (auto simp: GrabImage_end_def bindF_def RelocalisationInline_def Let_def PublishTopics_def
           ResetRelocalisationRequested_def
           split: sum.splits prod.splits if_splits)

lemma localMap_GrabImage:
  assumes "GrabImage e msg t = Inr t'" and "localMap t = None"
  shows "localMap t' = None"
proof -
  let ?t1 = "GrabImage_begin e msg t"
  have b: "localMap ?t1 = None" using assms(2) by (simp add: localMap_GrabImage_begin)
  show ?thesis
  proof (cases "msg_convertible msg")
    case False
    with assms show ?thesis by (auto simp: GrabImage_def)
  next
    case True
    with assms(1) obtain r t2 where
      d: "(if mState ?t1 = NOT_INITIALIZED then Inr (False, FirstInitialization ?t1)
           else if mState ?t1 = INITIALIZING then bindF (Initialize e ?t1) (\<lambda>t2. Inr (False, t2))
           else if mState ?t1 = WORKING then GrabImage_working e ?t1
           else Inr (False, emit [ROS_ERROR ''ORB-SLAM - Unknown tracking state, this should not happen.''] ?t1))
          = Inr (r, t2)"
      and f: "(if r then Inr t2 else GrabImage_end e t2) = Inr t'"
      by (auto simp: GrabImage_def Let_def bindF_def split: sum.splits prod.splits if_splits)
    from d b have "localMap t2 = None"
      by (auto simp: FirstInitialization_def bindF_def split: if_splits sum.splits
               dest: localMap_Initialize localMap_GrabImage_working)
    with f show ?thesis by (auto split: if_splits dest: localMap_GrabImage_end)
  qed
qed

lemma reachable_localMap: "reachable t \<Longrightarrow> localMap t = None"
proof (induction rule: reachable.induct)
  case (constructed nRGB nMotion fps)
  show ?case by (simp add: Tracking_new_def Let_def)
next
  case (image t e msg t')
  then show ?case by (auto dest: localMap_GrabImage)
next
  case (force_inline t)
  then show ?case by (simp add: ForceInlineRelocalisation_def)
next
  case (relocalised t frame)
  then show ?case by (simp add: SetRelocalisationFrame_def)
next
  case (shared t db hk hm)
  then show ?case by simp
qed

end
